theory Spec2Isabelle
  imports Main
begin

section \<open>The streaming response relay (class AnthropicResponseHandler)\<close>

text \<open>
  The handler owns two private fields, \<open>message_text\<close> and \<open>chunk_counter\<close>, and talks to
  the chat platform through two calls: \<open>channel.sendEvent\<close> and
  \<open>chatClient.partialUpdateMessage\<close>. Both are awaited and either may reject. The model
  keeps the fields in a record together with the list of calls issued so far (in order)
  and the lines written by \<open>console.error\<close>. Whether the n-th call issued rejects is told
  by a function from call numbers to an optional error message.
\<close>

datatype delta = TextDelta string | OtherDelta

datatype stream_event =
    ContentBlockStart
  | ContentBlockDelta delta
  | MessageStop
  | OtherEvent

datatype ai_indicator = IndicatorUpdate_AI_STATE_GENERATING | IndicatorClear

text \<open>\<open>PartialUpdateMessage text generating\<close> stands for
  \<open>partialUpdateMessage(message.id, {set: {text, generating}})\<close>.\<close>

datatype chat_call =
    SendEvent ai_indicator
  | PartialUpdateMessage string bool

record relay =
  message_text :: string
  chunk_counter :: nat
  calls :: "chat_call list"
  console_error :: "string list"

type_synonym network = "nat \<Rightarrow> string option"

definition new_relay :: relay where
  "new_relay = \<lparr>message_text = [], chunk_counter = 0, calls = [], console_error = []\<rparr>"

text \<open>One awaited call: it is recorded as issued, then resolves or rejects.\<close>

definition await_call :: "network \<Rightarrow> chat_call \<Rightarrow> relay \<Rightarrow> (string + unit) \<times> relay" where
  "await_call net c r =
     (let r' = r\<lparr>calls := calls r @ [c]\<rparr> in
      case net (length (calls r)) of
        Some err \<Rightarrow> (Inl err, r')
      | None \<Rightarrow> (Inr (), r'))"

text \<open>The throttling test of the source, on the counter after its increment.\<close>

definition should_flush :: "nat \<Rightarrow> bool" where
  "should_flush c = (c mod 15 = 0 \<or> (c < 8 \<and> c mod 2 \<noteq> 0))"

text \<open>The policy in the words of the specification.\<close>

definition flush_policy_spec :: "nat \<Rightarrow> bool" where
  "flush_policy_spec counter = (counter mod 15 = 0 \<or> (counter < 8 \<and> counter mod 2 = 1))"

fun handle :: "network \<Rightarrow> stream_event \<Rightarrow> relay \<Rightarrow> (string + unit) \<times> relay" where
  "handle net ContentBlockStart r = await_call net (SendEvent IndicatorUpdate_AI_STATE_GENERATING) r"
| "handle net (ContentBlockDelta OtherDelta) r = (Inr (), r)"
| "handle net (ContentBlockDelta (TextDelta t)) r =
     (let r1 = r\<lparr>message_text := message_text r @ t\<rparr>;
          r2 = r1\<lparr>chunk_counter := chunk_counter r1 + 1\<rparr>
      in if should_flush (chunk_counter r2)
         then await_call net (PartialUpdateMessage (message_text r2) True) r2
         else (Inr (), r2))"
| "handle net MessageStop r =
     (case await_call net (PartialUpdateMessage (message_text r) False) r of
        (Inl err, r') \<Rightarrow> (Inl err, r')
      | (Inr u, r') \<Rightarrow> await_call net (SendEvent IndicatorClear) r')"
| "handle net OtherEvent r = (Inr (), r)"

text \<open>The loop of \<open>run\<close>: every event of the stream is handled inside its own try/catch.\<close>

fun run :: "network \<Rightarrow> stream_event list \<Rightarrow> relay \<Rightarrow> relay" where
  "run net [] r = r"
| "run net (ev # evs) r =
     (case handle net ev r of
        (Inl err, r') \<Rightarrow> run net evs (r'\<lparr>console_error := console_error r' @ [err]\<rparr>)
      | (Inr u, r') \<Rightarrow> run net evs r')"

text \<open>The partial updates among the calls issued, and the texts of the text deltas
  among the events.\<close>

fun partial_updates :: "chat_call list \<Rightarrow> chat_call list" where
  "partial_updates [] = []"
| "partial_updates (PartialUpdateMessage t g # cs) = PartialUpdateMessage t g # partial_updates cs"
| "partial_updates (SendEvent i # cs) = partial_updates cs"

fun delta_texts :: "stream_event list \<Rightarrow> string list" where
  "delta_texts [] = []"
| "delta_texts (ContentBlockDelta (TextDelta t) # evs) = t # delta_texts evs"
| "delta_texts (ev # evs) = delta_texts evs"

definition text_delta_events :: "string list \<Rightarrow> stream_event list" where
  "text_delta_events ds = map (\<lambda>t. ContentBlockDelta (TextDelta t)) ds"

text \<open>Two networks used in the examples: one on which every call resolves, and one on
  which the first call issued rejects.\<close>

definition reliable :: network where
  "reliable n = None"

definition first_call_rejects :: network where
  "first_call_rejects n = (if n = 0 then Some ''network down'' else None)"

section \<open>JavaScript values and coercions used by the handlers\<close>

text \<open>
  Modelled from the spec: the row type of the profile store is not in the sources. A
  column value is a string, an array of strings, \<open>null\<close>, or \<open>undefined\<close> when the column
  is absent; the row has the fields \<open>name, gender, personality, style, traits, quirks,
  bio\<close>.
\<close>

datatype jsval = JUndefined | JNull | JString string | JStrings "string list"

record profile =
  name :: jsval
  gender :: jsval
  personality :: jsval
  style :: jsval
  traits :: jsval
  quirks :: jsval
  bio :: jsval

fun join_comma :: "string list \<Rightarrow> string" where
  "join_comma [] = []"
| "join_comma [x] = x"
| "join_comma (x # y # ys) = x @ '','' @ join_comma (y # ys)"

text \<open>\<open>ToString\<close>, as applied by a template literal and by \<open>+\<close> with a string operand.\<close>

fun ToString :: "jsval \<Rightarrow> string" where
  "ToString JUndefined = ''undefined''"
| "ToString JNull = ''null''"
| "ToString (JString s) = s"
| "ToString (JStrings xs) = join_comma xs"

fun truthy :: "jsval \<Rightarrow> bool" where
  "truthy JUndefined = False"
| "truthy JNull = False"
| "truthy (JString s) = (s \<noteq> [])"
| "truthy (JStrings xs) = True"

text \<open>
  Unary plus on a string is \<open>StringToNumber\<close>. The model covers the part of it that needs
  no numeric literal to be read: a string of white space only is \<open>0\<close>; a string whose first
  character after the leading white space is an ASCII character that cannot begin a numeric
  literal (a digit, a sign, a dot, or the I of Infinity) is \<open>NaN\<close>. Every other string is
  outside the model (\<open>None\<close>).
\<close>

datatype jsnumber = NaN | Zero

definition ascii_white_space :: "char list" where
  "ascii_white_space = [CHR 0x09, CHR 0x0A, CHR 0x0B, CHR 0x0C, CHR 0x0D, CHR 0x20]"

definition StringToNumber :: "string \<Rightarrow> jsnumber option" where
  "StringToNumber s =
     (case dropWhile (\<lambda>c. c \<in> set ascii_white_space) s of
        [] \<Rightarrow> Some Zero
      | c # cs \<Rightarrow>
          if (of_char c :: nat) < 128 \<and> c \<notin> set ''0123456789+-.I'' then Some NaN else None)"

fun NumberToString :: "jsnumber \<Rightarrow> string" where
  "NumberToString NaN = ''NaN''"
| "NumberToString Zero = ''0''"

definition unary_plus :: "string \<Rightarrow> jsnumber" where
  "unary_plus s = the (StringToNumber s)"

datatype js_error =
    TypeError string
  | Rejection string

text \<open>The message that \<open>(error as Error).message\<close> reads.\<close>

fun error_message :: "js_error \<Rightarrow> string" where
  "error_message (TypeError m) = m"
| "error_message (Rejection m) = m"

text \<open>
  The system prompt of \<open>/new-ai-message\<close> (lines 237 to 257 of index.ts). \<open>agentInfo\<close> is
  \<open>None\<close> for \<open>null\<close>. Only the read of \<open>gender\<close> is guarded by \<open>?.\<close>; the first unguarded
  read, \<open>agentInfo.name\<close>, throws on \<open>null\<close> in either branch.
\<close>

definition agentProfile :: "profile option \<Rightarrow> js_error + string" where
  "agentProfile agentInfo =
     (let g = (case agentInfo of None \<Rightarrow> JUndefined | Some p \<Rightarrow> gender p);
          gender' = (if truthy g then g else JString ''female'')
      in case agentInfo of
           None \<Rightarrow> Inl (TypeError ''Cannot read properties of null (reading 'name')'')
         | Some p \<Rightarrow>
             Inr ((if gender' = JString ''female''
                   then ''You are a virtual girlfried named '' @ ToString (name p) @ ''.''
                   else ''You are a virtual boyfriend named '' @ ToString (name p) @ ''.'')
                  @ ''You have personality: ''
                  @ ToString (personality p)
                  @ ''and you style is ''
                  @ ToString (style p)
                  @ ''.''
                  @ ''Your traits are: ''
                  @ ToString (traits p)
                  @ NumberToString (unary_plus ''Your quirks are: '')
                  @ ToString (quirks p)
                  @ ''.''
                  @ ''You have a biography: '' @ ToString (bio p) @ ''.''))"

section \<open>The agent registry (index.ts)\<close>

text \<open>
  Modelled from the spec: the class of agent instances (\<open>./agents/types\<close>) is not in the
  sources. An instance has an identity and a last-interaction timestamp in milliseconds;
  its \<open>init\<close> and \<open>dispose\<close> are awaited calls that resolve or reject.
\<close>

record ai_agent =
  agentId :: string
  lastInteraction :: int

text \<open>
  \<open>aiAgentCache\<close> is a JavaScript \<open>Map\<close>. The language keeps the entries of a \<open>Map\<close> in a
  list in insertion order; \<open>delete\<close> empties the entry's slot without removing it, \<open>set\<close>
  overwrites the value of a present key in place and appends a new entry otherwise, and an
  iterator holds an index into that list. A slot is \<open>None\<close> once emptied.
\<close>

type_synonym 'v jsmap = "(string \<times> 'v) option list"

fun map_get :: "'v jsmap \<Rightarrow> string \<Rightarrow> 'v option" where
  "map_get [] k = None"
| "map_get (None # es) k = map_get es k"
| "map_get (Some (k', v) # es) k = (if k' = k then Some v else map_get es k)"

definition map_has :: "'v jsmap \<Rightarrow> string \<Rightarrow> bool" where
  "map_has m k = (map_get m k \<noteq> None)"

fun map_set :: "'v jsmap \<Rightarrow> string \<Rightarrow> 'v \<Rightarrow> 'v jsmap" where
  "map_set [] k v = [Some (k, v)]"
| "map_set (None # es) k v = None # map_set es k v"
| "map_set (Some (k', v') # es) k v =
     (if k' = k then Some (k, v) # es else Some (k', v') # map_set es k v)"

fun map_delete :: "'v jsmap \<Rightarrow> string \<Rightarrow> 'v jsmap" where
  "map_delete [] k = []"
| "map_delete (None # es) k = None # map_delete es k"
| "map_delete (Some (k', v') # es) k =
     (if k' = k then None # es else Some (k', v') # map_delete es k)"

datatype member = Member "(string \<times> bool) option"

text \<open>\<open>Member (Some (id, isAIAgent))\<close> is a member with a user record; \<open>Member None\<close> has none.\<close>

fun is_ai_member :: "member \<Rightarrow> bool" where
  "is_ai_member (Member None) = False"
| "is_ai_member (Member (Some (uid, isAIAgent))) = isAIAgent"

text \<open>
  \<open>channelMembers.members.find(...)\<close> followed by the test
  \<open>!aiAgent || !aiAgent.user?.id\<close>: the identity of the first member flagged as an agent,
  when it has a non-empty one.
\<close>

definition find_agent_id :: "member list \<Rightarrow> string option" where
  "find_agent_id members =
     (case List.find is_ai_member members of
        None \<Rightarrow> None
      | Some (Member None) \<Rightarrow> None
      | Some (Member (Some (uid, isAIAgent))) \<Rightarrow> (if uid = [] then None else Some uid))"

record request_body =
  channel_id :: "string option"
  channel_type :: "string option"
  platform :: "string option"

fun split_on :: "char \<Rightarrow> string \<Rightarrow> string list" where
  "split_on sep [] = [[]]"
| "split_on sep (c # cs) =
     (if c = sep then [] # split_on sep cs
      else (case split_on sep cs of
              [] \<Rightarrow> [[c]]
            | p # ps \<Rightarrow> (c # p) # ps))"

definition channel_id_updated :: "string \<Rightarrow> string" where
  "channel_id_updated cid =
     (if CHR '':'' \<in> set cid
      then (case split_on (CHR '':'') cid of
              p0 # p1 # ps \<Rightarrow> p1
            | _ \<Rightarrow> cid)
      else cid)"

datatype content_block = TextBlock string | OtherBlock

text \<open>The awaited calls that the handlers issue, with the arguments that vary.\<close>

datatype server_call =
    QueryMembers string string
  | SupabaseSelect string
  | ChannelWatch string
  | CreateAgent string string string string "profile option"
  | AgentInit ai_agent
  | AgentDispose ai_agent
  | AnthropicCreate string
  | SendMessage string string

datatype console_line =
    ConsoleWarn string
  | ConsoleError string string

datatype response =
    Json200 string
  | Json400 string
  | Json500 string string

text \<open>What an awaited call settles to: a rejection, or the value of its kind.\<close>

datatype settled =
    Rejected string
  | Members "member list"
  | QueryResult "profile option" "string option"
  | Resolved
  | Agent ai_agent
  | Completion "content_block list"

record server =
  aiAgentCache :: "ai_agent jsmap"
  pendingAiAgents :: "string set"
  issued :: "server_call list"
  console :: "console_line list"

definition initial_server :: server where
  "initial_server = \<lparr>aiAgentCache = [], pendingAiAgents = {}, issued = [], console = []\<rparr>"

definition issue :: "server_call \<Rightarrow> server \<Rightarrow> server" where
  "issue c s = s\<lparr>issued := issued s @ [c]\<rparr>"

definition log_line :: "console_line \<Rightarrow> server \<Rightarrow> server" where
  "log_line l s = s\<lparr>console := console s @ [l]\<rparr>"

text \<open>
  A handler runs without interruption from one \<open>await\<close> to the next. A task is the point
  at which a handler is suspended, with the local variables that the rest of it reads, or
  the way in which it ended: with a response, by returning (the timer callback), or with a
  rejection that no \<open>try\<close> caught. The start handler carries \<open>platform\<close>, \<open>channel_type\<close>
  and \<open>channel_id_updated\<close>, in this order, up to the call of \<open>createAgent\<close>, then the
  \<open>agent_id\<close>; the sweep carries \<open>now\<close>, the index of the slot it is at, and \<open>userId\<close>.
\<close>

datatype task =
    Responded response
  | Returned
  | Unhandled string
  | Start_queryMembers string string string
  | Start_getAIAgentInfo string string string string
  | Start_watch string string string string "profile option"
  | Start_createAgent string
  | Start_init string ai_agent
  | Start_dispose string
  | Stop_queryMembers
  | Stop_dispose string
  | Message_queryMembers
  | Message_getAIAgentInfo string
  | Message_create string
  | Message_sendMessage string
  | Sweep_dispose int nat string

text \<open>\<open>getAIAgentInfo\<close> of lib/agent.ts, applied to the \<open>{data, error}\<close> that the query
  settled to. \<open>error\<close> is \<open>null\<close> (\<open>None\<close>) or an error object, given by its message; an
  object is truthy whatever its message, so \<open>if (error)\<close> is the test for \<open>Some\<close>.\<close>

definition getAIAgentInfo :: "profile option \<Rightarrow> string option \<Rightarrow> server \<Rightarrow> profile option \<times> server" where
  "getAIAgentInfo data error s =
     (case error of
        Some e \<Rightarrow> (None, log_line (ConsoleError ''Error fetching AI agent info:'' e) s)
      | None \<Rightarrow> (data, s))"

text \<open>The null check of lines 88 to 92 and 226 to 230: a warning, nothing else.\<close>

definition warn_if_absent :: "string \<Rightarrow> profile option \<Rightarrow> server \<Rightarrow> server" where
  "warn_if_absent agent_id agentInfo s =
     (if agentInfo = None
      then log_line (ConsoleWarn (''Failed to fetch agent info for '' @ agent_id @ '', using default values'')) s
      else s)"

definition with_default :: "string \<Rightarrow> string option \<Rightarrow> string" where
  "with_default d v = (case v of None \<Rightarrow> d | Some x \<Rightarrow> x)"

subsection \<open>POST /start-ai-agent\<close>

text \<open>Line 118, line 132, and the two ways out of the \<open>try\<close>: line 124 and the \<open>catch\<close>
  of lines 125 to 130, each followed by the \<open>finally\<close>.\<close>

definition start_register :: "string \<Rightarrow> ai_agent \<Rightarrow> server \<Rightarrow> server" where
  "start_register agent_id agent s = s\<lparr>aiAgentCache := map_set (aiAgentCache s) agent_id agent\<rparr>"

definition start_finally :: "string \<Rightarrow> server \<Rightarrow> server" where
  "start_finally agent_id s = s\<lparr>pendingAiAgents := pendingAiAgents s - {agent_id}\<rparr>"

definition start_respond :: "string \<Rightarrow> server \<Rightarrow> task \<times> server" where
  "start_respond agent_id s = (Responded (Json200 ''AI Agent started''), start_finally agent_id s)"

definition start_catch :: "string \<Rightarrow> string \<Rightarrow> server \<Rightarrow> task \<times> server" where
  "start_catch errorMessage agent_id s =
     (Responded (Json500 ''Failed to start AI Agent'' errorMessage),
      start_finally agent_id (log_line (ConsoleError ''Failed to start AI Agent'' errorMessage) s))"

definition start_ai_agent :: "request_body \<Rightarrow> server \<Rightarrow> task \<times> server" where
  "start_ai_agent body s =
     (case channel_id body of
        None \<Rightarrow> (Responded (Json400 ''Missing required fields''), s)
      | Some cid \<Rightarrow>
          if cid = [] then (Responded (Json400 ''Missing required fields''), s)
          else (let ct = with_default ''messaging'' (channel_type body);
                    pf = with_default ''anthropic'' (platform body);
                    cid' = channel_id_updated cid
                in (Start_queryMembers pf ct cid', issue (QueryMembers ct cid') s)))"

text \<open>The guard of line 97 and what follows it up to the next \<open>await\<close>. The branch of
  line 100 cannot be taken: line 78 has returned when \<open>aiAgent\<close> is absent.\<close>

definition start_guard :: "string \<Rightarrow> string \<Rightarrow> string \<Rightarrow> string \<Rightarrow> profile option \<Rightarrow> server \<Rightarrow> task \<times> server" where
  "start_guard pf ct cid agent_id agentInfo s =
     (if \<not> map_has (aiAgentCache s) agent_id \<and> agent_id \<notin> pendingAiAgents s
      then (Start_watch pf ct cid agent_id agentInfo,
            issue (ChannelWatch cid) (s\<lparr>pendingAiAgents := insert agent_id (pendingAiAgents s)\<rparr>))
      else start_respond agent_id s)"

subsection \<open>POST /stop-ai-agent\<close>

definition stop_ai_agent :: "request_body \<Rightarrow> server \<Rightarrow> task \<times> server" where
  "stop_ai_agent body s =
     (case channel_id body of
        None \<Rightarrow> (Responded (Json400 ''Missing required fields''), s)
      | Some cid \<Rightarrow>
          if cid = [] then (Responded (Json400 ''Missing required fields''), s)
          else (Stop_queryMembers, issue (QueryMembers ''messaging'' cid) s))"

subsection \<open>POST /new-ai-message\<close>

definition message_finally :: "string \<Rightarrow> server \<Rightarrow> server" where
  "message_finally agent_id s = s\<lparr>pendingAiAgents := pendingAiAgents s - {agent_id}\<rparr>"

definition message_respond :: "string \<Rightarrow> server \<Rightarrow> task \<times> server" where
  "message_respond agent_id s = (Responded (Json200 ''AI Agent started''), message_finally agent_id s)"

definition message_catch :: "string \<Rightarrow> string \<Rightarrow> server \<Rightarrow> task \<times> server" where
  "message_catch errorMessage agent_id s =
     (Responded (Json500 ''Failed to start AI Agent'' errorMessage),
      message_finally agent_id (log_line (ConsoleError ''Failed to start AI Agent'' errorMessage) s))"

definition new_ai_message :: "request_body \<Rightarrow> server \<Rightarrow> task \<times> server" where
  "new_ai_message body s =
     (case channel_id body of
        None \<Rightarrow> (Responded (Json400 ''Missing required fields''), s)
      | Some cid \<Rightarrow>
          if cid = [] then (Responded (Json400 ''Missing required fields''), s)
          else (let ct = with_default ''messaging'' (channel_type body);
                    cid' = channel_id_updated cid
                in (Message_queryMembers, issue (QueryMembers ct cid') s)))"

text \<open>Lines 232 to 271: the prompt is built and the completion requested, inside the
  \<open>try\<close>. The construction of the client on line 233 reads the API key from the environment
  and is taken to succeed.\<close>

definition message_prompt :: "string \<Rightarrow> profile option \<Rightarrow> server \<Rightarrow> task \<times> server" where
  "message_prompt agent_id agentInfo s =
     (case agentProfile agentInfo of
        Inl err \<Rightarrow> message_catch (error_message err) agent_id s
      | Inr prompt \<Rightarrow> (Message_create agent_id, issue (AnthropicCreate prompt) s))"

text \<open>Lines 273 to 281, on the content blocks of the completion.\<close>

definition message_reply :: "string \<Rightarrow> content_block list \<Rightarrow> server \<Rightarrow> task \<times> server" where
  "message_reply agent_id blocks s =
     (case blocks of
        [] \<Rightarrow> message_catch ''Cannot read properties of undefined (reading 'type')'' agent_id s
      | TextBlock t # bs \<Rightarrow>
          if t \<noteq> [] then (Message_sendMessage agent_id, issue (SendMessage t agent_id) s)
          else message_respond agent_id s
      | OtherBlock # bs \<Rightarrow> message_respond agent_id s)"

subsection \<open>The idle sweep\<close>

definition inactivityThreshold :: int where
  "inactivityThreshold = 480 * 60 * 1000"

text \<open>The \<open>for ... of\<close> over the map, from slot \<open>i\<close> on, up to the first entry that has
  expired: the loop suspends there, at the \<open>await\<close> of line 27.\<close>

fun next_expired :: "int \<Rightarrow> ai_agent jsmap \<Rightarrow> nat \<Rightarrow> (nat \<times> string \<times> ai_agent) option" where
  "next_expired now [] i = None"
| "next_expired now (None # es) i = next_expired now es (Suc i)"
| "next_expired now (Some (userId, aiAgent) # es) i =
     (if now - lastInteraction aiAgent > inactivityThreshold
      then Some (i, userId, aiAgent)
      else next_expired now es (Suc i))"

definition sweep_from :: "int \<Rightarrow> nat \<Rightarrow> server \<Rightarrow> task \<times> server" where
  "sweep_from now i s =
     (case next_expired now (drop i (aiAgentCache s)) i of
        None \<Rightarrow> (Returned, s)
      | Some (j, userId, aiAgent) \<Rightarrow> (Sweep_dispose now j userId, issue (AgentDispose aiAgent) s))"

definition sweep_delete :: "string \<Rightarrow> server \<Rightarrow> server" where
  "sweep_delete userId s = s\<lparr>aiAgentCache := map_delete (aiAgentCache s) userId\<rparr>"

subsection \<open>Resuming a suspended handler\<close>

text \<open>
  \<open>resume v t s\<close> runs the handler suspended at \<open>t\<close> from the moment its awaited call
  settles to \<open>v\<close> up to its next \<open>await\<close> or its end. A value of the wrong kind for the call
  awaited, and any value for a task that has ended, changes nothing.
\<close>

fun resume :: "settled \<Rightarrow> task \<Rightarrow> server \<Rightarrow> task \<times> server" where
  "resume v (Start_queryMembers pf ct cid) s =
     (case v of
        Members ms \<Rightarrow>
          (case find_agent_id ms of
             None \<Rightarrow> (Responded (Json400 ''AI Agent not found in the channel''), s)
           | Some agent_id \<Rightarrow>
               (Start_getAIAgentInfo pf ct cid agent_id, issue (SupabaseSelect agent_id) s))
      | Rejected e \<Rightarrow> (Unhandled e, s)
      | _ \<Rightarrow> (Start_queryMembers pf ct cid, s))"
| "resume v (Start_getAIAgentInfo pf ct cid agent_id) s =
     (case v of
        QueryResult data error \<Rightarrow>
          (case getAIAgentInfo data error s of
             (agentInfo, s1) \<Rightarrow>
               start_guard pf ct cid agent_id agentInfo (warn_if_absent agent_id agentInfo s1))
      | Rejected e \<Rightarrow> (Unhandled e, s)
      | _ \<Rightarrow> (Start_getAIAgentInfo pf ct cid agent_id, s))"
| "resume v (Start_watch pf ct cid agent_id agentInfo) s =
     (case v of
        Resolved \<Rightarrow> (Start_createAgent agent_id, issue (CreateAgent agent_id pf ct cid agentInfo) s)
      | Rejected e \<Rightarrow> start_catch e agent_id s
      | _ \<Rightarrow> (Start_watch pf ct cid agent_id agentInfo, s))"
| "resume v (Start_createAgent agent_id) s =
     (case v of
        Agent agent \<Rightarrow> (Start_init agent_id agent, issue (AgentInit agent) s)
      | Rejected e \<Rightarrow> start_catch e agent_id s
      | _ \<Rightarrow> (Start_createAgent agent_id, s))"
| "resume v (Start_init agent_id agent) s =
     (case v of
        Resolved \<Rightarrow>
          if map_has (aiAgentCache s) agent_id
          then (Start_dispose agent_id, issue (AgentDispose agent) s)
          else start_respond agent_id (start_register agent_id agent s)
      | Rejected e \<Rightarrow> start_catch e agent_id s
      | _ \<Rightarrow> (Start_init agent_id agent, s))"
| "resume v (Start_dispose agent_id) s =
     (case v of
        Resolved \<Rightarrow> start_respond agent_id s
      | Rejected e \<Rightarrow> start_catch e agent_id s
      | _ \<Rightarrow> (Start_dispose agent_id, s))"
| "resume v Stop_queryMembers s =
     (case v of
        Members ms \<Rightarrow>
          (case find_agent_id ms of
             None \<Rightarrow> (Responded (Json400 ''AI Agent not found in the channel''), s)
           | Some agent_id \<Rightarrow>
               (case map_get (aiAgentCache s) agent_id of
                  Some aiAgent \<Rightarrow> (Stop_dispose agent_id, issue (AgentDispose aiAgent) s)
                | None \<Rightarrow> (Responded (Json200 ''AI Agent stopped''), s)))
      | Rejected e \<Rightarrow> (Unhandled e, s)
      | _ \<Rightarrow> (Stop_queryMembers, s))"
| "resume v (Stop_dispose agent_id) s =
     (case v of
        Resolved \<Rightarrow>
          (Responded (Json200 ''AI Agent stopped''),
           s\<lparr>aiAgentCache := map_delete (aiAgentCache s) agent_id\<rparr>)
      | Rejected e \<Rightarrow>
          (Responded (Json500 ''Failed to stop AI Agent'' e),
           log_line (ConsoleError ''Failed to stop AI Agent'' e) s)
      | _ \<Rightarrow> (Stop_dispose agent_id, s))"
| "resume v Message_queryMembers s =
     (case v of
        Members ms \<Rightarrow>
          (case find_agent_id ms of
             None \<Rightarrow> (Responded (Json400 ''AI Agent not found in the channel''), s)
           | Some agent_id \<Rightarrow> (Message_getAIAgentInfo agent_id, issue (SupabaseSelect agent_id) s))
      | Rejected e \<Rightarrow> (Unhandled e, s)
      | _ \<Rightarrow> (Message_queryMembers, s))"
| "resume v (Message_getAIAgentInfo agent_id) s =
     (case v of
        QueryResult data error \<Rightarrow>
          (case getAIAgentInfo data error s of
             (agentInfo, s1) \<Rightarrow>
               message_prompt agent_id agentInfo (warn_if_absent agent_id agentInfo s1))
      | Rejected e \<Rightarrow> (Unhandled e, s)
      | _ \<Rightarrow> (Message_getAIAgentInfo agent_id, s))"
| "resume v (Message_create agent_id) s =
     (case v of
        Completion blocks \<Rightarrow> message_reply agent_id blocks s
      | Rejected e \<Rightarrow> message_catch e agent_id s
      | _ \<Rightarrow> (Message_create agent_id, s))"
| "resume v (Message_sendMessage agent_id) s =
     (case v of
        Resolved \<Rightarrow> message_respond agent_id s
      | Rejected e \<Rightarrow> message_catch e agent_id s
      | _ \<Rightarrow> (Message_sendMessage agent_id, s))"
| "resume v (Sweep_dispose now i userId) s =
     (case v of
        Resolved \<Rightarrow> sweep_from now (Suc i) (sweep_delete userId s)
      | Rejected e \<Rightarrow> (Unhandled e, s)
      | _ \<Rightarrow> (Sweep_dispose now i userId, s))"
| "resume v (Responded r) s = (Responded r, s)"
| "resume v Returned s = (Returned, s)"
| "resume v (Unhandled e) s = (Unhandled e, s)"

subsection \<open>The event loop\<close>

text \<open>
  What the event loop delivers: a request, a tick of the sweep timer with the value of
  \<open>Date.now()\<close>, or the settling of the call that the n-th task awaits. Tasks are numbered in
  the order in which they began.
\<close>

datatype event =
    StartAiAgent request_body
  | StopAiAgent request_body
  | NewAiMessage request_body
  | TimerTick int
  | Settle nat settled

fun deliver :: "event \<Rightarrow> server \<times> task list \<Rightarrow> server \<times> task list" where
  "deliver (StartAiAgent body) (s, ts) = (case start_ai_agent body s of (t, s') \<Rightarrow> (s', ts @ [t]))"
| "deliver (StopAiAgent body) (s, ts) = (case stop_ai_agent body s of (t, s') \<Rightarrow> (s', ts @ [t]))"
| "deliver (NewAiMessage body) (s, ts) = (case new_ai_message body s of (t, s') \<Rightarrow> (s', ts @ [t]))"
| "deliver (TimerTick now) (s, ts) = (case sweep_from now 0 s of (t, s') \<Rightarrow> (s', ts @ [t]))"
| "deliver (Settle n v) (s, ts) =
     (if n < length ts
      then (case resume v (ts ! n) s of (t, s') \<Rightarrow> (s', ts[n := t]))
      else (s, ts))"

text \<open>
  The program installs no listener for rejections that nothing handles, and Node (from
  version 15) ends the process on the first of them. Once a task has ended that way nothing
  more is delivered: the state stays as the process left it.
\<close>

fun is_unhandled :: "task \<Rightarrow> bool" where
  "is_unhandled (Unhandled e) = True"
| "is_unhandled t = False"

definition process_ended :: "task list \<Rightarrow> bool" where
  "process_ended ts = list_ex is_unhandled ts"

definition fire :: "event \<Rightarrow> server \<times> task list \<Rightarrow> server \<times> task list" where
  "fire e st = (if process_ended (snd st) then st else deliver e st)"

fun exec :: "event list \<Rightarrow> server \<times> task list \<Rightarrow> server \<times> task list" where
  "exec [] st = st"
| "exec (e # es) st = exec es (fire e st)"

subsection \<open>Predicates and example inputs used in the statements\<close>

text \<open>The identity that a suspended \<open>/new-ai-message\<close> handler has resolved, and the identity
  for which a suspended \<open>/start-ai-agent\<close> handler is past the guard of line 97, that is, on
  the path that creates the agent.\<close>

fun message_task_id :: "task \<Rightarrow> string option" where
  "message_task_id (Message_getAIAgentInfo agent_id) = Some agent_id"
| "message_task_id (Message_create agent_id) = Some agent_id"
| "message_task_id (Message_sendMessage agent_id) = Some agent_id"
| "message_task_id t = None"

fun start_creation_id :: "task \<Rightarrow> string option" where
  "start_creation_id (Start_watch pf ct cid agent_id agentInfo) = Some agent_id"
| "start_creation_id (Start_createAgent agent_id) = Some agent_id"
| "start_creation_id (Start_init agent_id agent) = Some agent_id"
| "start_creation_id (Start_dispose agent_id) = Some agent_id"
| "start_creation_id t = None"

text \<open>No identity is both pending and active.\<close>

definition registry_disjoint :: "server \<Rightarrow> bool" where
  "registry_disjoint s = (\<forall>agent_id \<in> pendingAiAgents s. \<not> map_has (aiAgentCache s) agent_id)"

text \<open>A channel \<open>c1\<close> whose agent member is \<open>A1\<close>, a profile, and two agent instances.\<close>

definition luna :: profile where
  "luna = \<lparr>name = JString ''Luna'', gender = JString ''female'', personality = JString ''warm'',
     style = JString ''casual'', traits = JStrings [''kind'', ''witty''], quirks = JString ''hums'',
     bio = JNull\<rparr>"

definition agent1 :: ai_agent where
  "agent1 = \<lparr>agentId = ''A1'', lastInteraction = 0\<rparr>"

definition agent2 :: ai_agent where
  "agent2 = \<lparr>agentId = ''A2'', lastInteraction = 1000\<rparr>"

definition body_c1 :: request_body where
  "body_c1 = \<lparr>channel_id = Some ''messaging:c1'', channel_type = None, platform = None\<rparr>"

definition members_c1 :: "member list" where
  "members_c1 = [Member (Some (''u1'', False)), Member (Some (''A1'', True))]"

text \<open>A registry that holds both instances, as two completed start requests leave it.\<close>

definition two_idle_agents :: server where
  "two_idle_agents = initial_server\<lparr>aiAgentCache := [Some (''A1'', agent1), Some (''A2'', agent2)]\<rparr>"

text \<open>A start request up to its \<open>await channel.watch()\<close>, and up to its
  \<open>await agent.init()\<close>.\<close>

definition marker_installed :: "event list" where
  "marker_installed =
     [StartAiAgent body_c1, Settle 0 (Members members_c1), Settle 0 (QueryResult (Some luna) None)]"

definition start_reaches_init :: "event list" where
  "start_reaches_init =
     [StartAiAgent body_c1, Settle 0 (Members members_c1), Settle 0 (QueryResult (Some luna) None),
      Settle 0 Resolved, Settle 0 (Agent agent1)]"

text \<open>A whole \<open>/new-ai-message\<close> request, as the second task.\<close>

definition message_completes :: "event list" where
  "message_completes =
     [NewAiMessage body_c1, Settle 1 (Members members_c1), Settle 1 (QueryResult (Some luna) None),
      Settle 1 (Completion [TextBlock ''Hello!'']), Settle 1 Resolved]"

text \<open>A \<open>/new-ai-message\<close> request, as the second task, whose completion call rejects.\<close>

definition message_fails :: "event list" where
  "message_fails =
     [NewAiMessage body_c1, Settle 1 (Members members_c1), Settle 1 (QueryResult (Some luna) None),
      Settle 1 (Rejected ''overloaded'')]"

text \<open>A tick of the sweep, eight hours and twenty minutes after \<open>A1\<close> was last used, whose
  first \<open>dispose\<close> rejects.\<close>

definition tick_then_rejection :: "event list" where
  "tick_then_rejection = [TimerTick 30000000, Settle 0 (Rejected ''dispose failed'')]"

text \<open>The number of times \<open>createAgent\<close> has been called for an identity.\<close>

fun is_createAgent_for :: "string \<Rightarrow> server_call \<Rightarrow> bool" where
  "is_createAgent_for agent_id (CreateAgent a pf ct cid agentInfo) = (a = agent_id)"
| "is_createAgent_for agent_id c = False"

definition factory_invocations :: "string \<Rightarrow> server \<Rightarrow> nat" where
  "factory_invocations agent_id s = length (filter (is_createAgent_for agent_id) (issued s))"

text \<open>
  What is delivered while two start requests for the identity \<open>a\<close> run alone and nothing
  rejects: the arrival of a start request with a channel id, and the settling of an awaited
  call with a value, where a list of members is one whose agent member is \<open>a\<close>.
\<close>

fun admissible_value :: "string \<Rightarrow> settled \<Rightarrow> bool" where
  "admissible_value a (Rejected e) = False"
| "admissible_value a (Members ms) = (find_agent_id ms = Some a)"
| "admissible_value a v = True"

fun admissible :: "string \<Rightarrow> event \<Rightarrow> bool" where
  "admissible a (StartAiAgent body) =
     (case channel_id body of None \<Rightarrow> False | Some cid \<Rightarrow> cid \<noteq> [])"
| "admissible a (Settle n v) = admissible_value a v"
| "admissible a e = False"

text \<open>
  How far a start request for the identity \<open>a\<close> has come: not yet at the guard of line 97
  (not arrived, or suspended at an earlier \<open>await\<close>), at \<open>channel.watch()\<close> with its marker
  installed, inside the factory (\<open>createAgent\<close> or \<open>agent.init\<close>), or answered. \<open>stages\<close>
  gives the stages of the first two tasks, a task that has not begun counting as not yet
  at the guard. For two such requests, \<open>in_flight\<close> lists the combinations that occur, each
  with what then holds of the registry: whether \<open>a\<close> is active, whether it is pending, and
  the number \<open>k\<close> of factory calls made since the start.
\<close>

datatype stage = BeforeGuard | Watching | Creating | Answered | Astray

fun stage_of :: "string \<Rightarrow> task \<Rightarrow> stage" where
  "stage_of a (Start_queryMembers pf ct cid) = BeforeGuard"
| "stage_of a (Start_getAIAgentInfo pf ct cid agent_id) = (if agent_id = a then BeforeGuard else Astray)"
| "stage_of a (Start_watch pf ct cid agent_id agentInfo) = (if agent_id = a then Watching else Astray)"
| "stage_of a (Start_createAgent agent_id) = (if agent_id = a then Creating else Astray)"
| "stage_of a (Start_init agent_id agent) = (if agent_id = a then Creating else Astray)"
| "stage_of a (Responded r) = Answered"
| "stage_of a t = Astray"

fun stages :: "string \<Rightarrow> task list \<Rightarrow> (stage \<times> stage) option" where
  "stages a [] = Some (BeforeGuard, BeforeGuard)"
| "stages a [t] = Some (stage_of a t, BeforeGuard)"
| "stages a [t1, t2] = Some (stage_of a t1, stage_of a t2)"
| "stages a ts = None"

fun in_flight :: "stage \<Rightarrow> stage \<Rightarrow> bool \<Rightarrow> bool \<Rightarrow> nat \<Rightarrow> bool" where
  "in_flight BeforeGuard BeforeGuard active pending k = (\<not> active \<and> \<not> pending \<and> k = 0)"
| "in_flight Watching BeforeGuard active pending k = (\<not> active \<and> pending \<and> k = 0)"
| "in_flight BeforeGuard Watching active pending k = (\<not> active \<and> pending \<and> k = 0)"
| "in_flight Creating BeforeGuard active pending k = (\<not> active \<and> pending \<and> k = 1)"
| "in_flight BeforeGuard Creating active pending k = (\<not> active \<and> pending \<and> k = 1)"
| "in_flight Answered BeforeGuard active pending k = (active \<and> \<not> pending \<and> k = 1)"
| "in_flight BeforeGuard Answered active pending k = (active \<and> \<not> pending \<and> k = 1)"
| "in_flight Watching Answered active pending k = (\<not> active \<and> k = 0)"
| "in_flight Answered Watching active pending k = (\<not> active \<and> k = 0)"
| "in_flight Creating Answered active pending k = (\<not> active \<and> k = 1)"
| "in_flight Answered Creating active pending k = (\<not> active \<and> k = 1)"
| "in_flight Answered Answered active pending k = (k = 1)"
| "in_flight p q active pending k = False"

text \<open>The same for a state of the server and its tasks, with \<open>c0\<close> the number of factory
  calls made before the start.\<close>

definition one_flight :: "string \<Rightarrow> nat \<Rightarrow> server \<times> task list \<Rightarrow> bool" where
  "one_flight a c0 st =
     (c0 \<le> factory_invocations a (fst st) \<and>
      (case stages a (snd st) of
         None \<Rightarrow> False
       | Some (p, q) \<Rightarrow>
           in_flight p q (map_has (aiAgentCache (fst st)) a) (a \<in> pendingAiAgents (fst st))
             (factory_invocations a (fst st) - c0)))"

text \<open>
  Runs of two start requests for the channel \<open>c1\<close>. In the first both arrive together and
  the \<open>init\<close> of the first rejects before the second reaches the guard. In the second the
  second request arrives after the first has passed the guard, and nothing rejects. The
  third brings both to the \<open>await\<close> before the guard, and the fourth goes on from there
  without a rejection.
\<close>

definition first_start_fails :: "event list" where
  "first_start_fails =
     [StartAiAgent body_c1, StartAiAgent body_c1,
      Settle 0 (Members members_c1), Settle 1 (Members members_c1),
      Settle 0 (QueryResult (Some luna) None), Settle 0 Resolved, Settle 0 (Agent agent1),
      Settle 0 (Rejected ''init failed''),
      Settle 1 (QueryResult (Some luna) None), Settle 1 Resolved, Settle 1 (Agent agent1),
      Settle 1 Resolved]"

definition second_start_arrives_late :: "event list" where
  "second_start_arrives_late =
     [StartAiAgent body_c1, Settle 0 (Members members_c1), Settle 0 (QueryResult (Some luna) None),
      StartAiAgent body_c1, Settle 1 (Members members_c1), Settle 1 (QueryResult (Some luna) None),
      Settle 0 Resolved, Settle 0 (Agent agent1), Settle 0 Resolved]"

definition two_starts_at_guard :: "event list" where
  "two_starts_at_guard =
     [StartAiAgent body_c1, StartAiAgent body_c1,
      Settle 0 (Members members_c1), Settle 1 (Members members_c1)]"

definition both_starts_succeed :: "event list" where
  "both_starts_succeed =
     [Settle 0 (QueryResult (Some luna) None), Settle 1 (QueryResult (Some luna) None),
      Settle 0 Resolved, Settle 0 (Agent agent1), Settle 0 Resolved]"

section \<open>Properties of the relay\<close>

lemma await_call_fields:
  "message_text (snd (await_call net c r)) = message_text r"
  "chunk_counter (snd (await_call net c r)) = chunk_counter r"
  "console_error (snd (await_call net c r)) = console_error r"
  "calls (snd (await_call net c r)) = calls r @ [c]"
  by (simp_all add: await_call_def Let_def split: option.split)

lemma handle_message_text:
  "message_text (snd (handle net ev r)) = message_text r @ concat (delta_texts [ev])"
proof (cases ev)
  case (ContentBlockDelta d)
  then show ?thesis
    by (cases d) (simp_all add: Let_def await_call_fields)
next
  case MessageStop
  then show ?thesis
    by (simp add: await_call_fields split: prod.split sum.split)
      (metis await_call_fields(1) snd_conv)
qed (simp_all add: await_call_fields)

lemma delta_texts_append: "delta_texts (xs @ ys) = delta_texts xs @ delta_texts ys"
  by (induction xs rule: delta_texts.induct) simp_all

lemma run_step:
  "run net (ev # evs) r =
     run net evs (case fst (handle net ev r) of
                    Inl err \<Rightarrow> (snd (handle net ev r))\<lparr>console_error := console_error (snd (handle net ev r)) @ [err]\<rparr>
                  | Inr u \<Rightarrow> snd (handle net ev r))"
  by (simp split: prod.split sum.split)

lemma run_append: "run net (xs @ ys) r = run net ys (run net xs r)"
  by (induction xs arbitrary: r) (simp_all split: prod.split sum.split)

lemma run_message_text:
  "message_text (run net evs r) = message_text r @ concat (delta_texts evs)"
proof (induction evs arbitrary: r)
  case Nil
  then show ?case by simp
next
  case (Cons ev evs)
  have "delta_texts (ev # evs) = delta_texts [ev] @ delta_texts evs"
    using delta_texts_append [of "[ev]" evs] by simp
  moreover have "message_text (case fst (handle net ev r) of
                    Inl err \<Rightarrow> (snd (handle net ev r))\<lparr>console_error := console_error (snd (handle net ev r)) @ [err]\<rparr>
                  | Inr u \<Rightarrow> snd (handle net ev r)) = message_text (snd (handle net ev r))"
    by (simp split: sum.split)
  ultimately show ?case
    unfolding run_step by (simp add: Cons.IH handle_message_text)
qed

lemma delta_texts_text_delta_events: "delta_texts (text_delta_events ds) = ds"
  by (induction ds) (simp_all add: text_delta_events_def)

lemma partial_updates_append:
  "partial_updates (xs @ ys) = partial_updates xs @ partial_updates ys"
  by (induction xs rule: partial_updates.induct) simp_all

lemma handle_MessageStop_calls:
  "\<exists>rest. calls (snd (handle net MessageStop r)) =
      calls r @ PartialUpdateMessage (message_text r) False # rest \<and> partial_updates rest = []"
  by (auto simp: await_call_def Let_def split: option.split)

text \<open>
  Claim C1. For every list of text deltas delivered to a fresh handler and followed by the
  stream-end event, the last partial update that the handler issues carries the
  concatenation of all delta texts in delivery order, with \<open>generating = false\<close>. This holds
  on every network, that is, whichever of the throttled updates in between were issued,
  resolved or rejected.
\<close>

theorem final_update_is_concatenation:
  "last (partial_updates (calls (run net (text_delta_events ds @ [MessageStop]) new_relay)))
     = PartialUpdateMessage (concat ds) False"
proof -
  let ?r = "run net (text_delta_events ds) new_relay"
  have txt_eq: "message_text ?r = concat ds"
    by (simp add: run_message_text delta_texts_text_delta_events new_relay_def)
  obtain rest where rest:
    "calls (snd (handle net MessageStop ?r)) = calls ?r @ PartialUpdateMessage (message_text ?r) False # rest"
    "partial_updates rest = []"
    using handle_MessageStop_calls by blast
  have "calls (run net [MessageStop] ?r) = calls (snd (handle net MessageStop ?r))"
    by (simp split: prod.split sum.split)
  then have "calls (run net (text_delta_events ds @ [MessageStop]) new_relay)
      = calls ?r @ PartialUpdateMessage (message_text ?r) False # rest"
    by (simp only: run_append rest(1))
  then have "partial_updates (calls (run net (text_delta_events ds @ [MessageStop]) new_relay))
      = partial_updates (calls ?r) @ [PartialUpdateMessage (concat ds) False]"
    by (simp only: partial_updates_append partial_updates.simps rest(2) txt_eq)
  then show ?thesis by simp
qed


lemma should_flush_spec: "should_flush c = flush_policy_spec c"
  unfolding should_flush_def flush_policy_spec_def by presburger

text \<open>
  Claim C2. Handling a text delta increments the counter and issues a partial update (with
  the text accumulated so far and \<open>generating = true\<close>) exactly when the incremented counter
  satisfies the policy as the specification words it; nothing else is issued. Over the
  counters 1 to 30 the policy holds exactly at 1, 3, 5, 7, 15 and 30.
\<close>

theorem flush_policy:
  "calls (snd (handle net (ContentBlockDelta (TextDelta t)) r)) =
     (if flush_policy_spec (chunk_counter r + 1)
      then calls r @ [PartialUpdateMessage (message_text r @ t) True]
      else calls r)
   \<and> chunk_counter (snd (handle net (ContentBlockDelta (TextDelta t)) r)) = chunk_counter r + 1
   \<and> filter flush_policy_spec [1..<31] = [1, 3, 5, 7, 15, 30]"
proof -
  have "filter flush_policy_spec [1..<31] = [1, 3, 5, 7, 15, 30]"
    by (simp add: flush_policy_spec_def upt_rec)
  then show ?thesis
    by (simp add: Let_def await_call_fields should_flush_spec)
qed

text \<open>
  Claim C6, as stated, fails: the handler keeps no record of an earlier block-start, so a
  stream with two content blocks sends the indicator twice.
\<close>

theorem indicator_sent_twice:
  "calls (run reliable [ContentBlockStart, ContentBlockStart] new_relay) =
     [SendEvent IndicatorUpdate_AI_STATE_GENERATING, SendEvent IndicatorUpdate_AI_STATE_GENERATING]"
  by (simp add: new_relay_def reliable_def await_call_def)

text \<open>
  Claim C6, amended. Every block-start event issues exactly one call, the "generating"
  indicator, whether or not an earlier block-start did; it issues no partial update and
  leaves the accumulated text and the counter as they were.
\<close>

theorem block_start_effect:
  "calls (snd (handle net ContentBlockStart r)) = calls r @ [SendEvent IndicatorUpdate_AI_STATE_GENERATING]
   \<and> partial_updates (calls (snd (handle net ContentBlockStart r))) = partial_updates (calls r)
   \<and> message_text (snd (handle net ContentBlockStart r)) = message_text r
   \<and> chunk_counter (snd (handle net ContentBlockStart r)) = chunk_counter r"
  by (simp add: await_call_fields partial_updates_append)

lemma handle_console_error: "console_error (snd (handle net ev r)) = console_error r"
proof (cases ev)
  case (ContentBlockDelta d)
  then show ?thesis by (cases d) (simp_all add: Let_def await_call_fields)
next
  case MessageStop
  then show ?thesis
    by (auto simp: await_call_def Let_def split: option.split)
qed (simp_all add: await_call_fields)

lemma run_console_error_grows:
  "\<exists>more. console_error (run net evs r) = console_error r @ more"
proof (induction evs arbitrary: r)
  case Nil
  then show ?case by simp
next
  case (Cons ev evs)
  let ?r' = "case fst (handle net ev r) of
               Inl err \<Rightarrow> (snd (handle net ev r))\<lparr>console_error := console_error (snd (handle net ev r)) @ [err]\<rparr>
             | Inr u \<Rightarrow> snd (handle net ev r)"
  obtain more where m: "console_error (run net evs ?r') = console_error ?r' @ more"
    using Cons.IH by blast
  have "\<exists>pre. console_error ?r' = console_error r @ pre"
    by (simp add: handle_console_error split: sum.split)
  then obtain pre where "console_error ?r' = console_error r @ pre" by blast
  with m have "console_error (run net (ev # evs) r) = console_error r @ (pre @ more)"
    unfolding run_step by simp
  then show ?case by blast
qed

text \<open>
  Claim C8. If handling an event raises an error, after any events handled before it, the
  loop logs that error and goes on with the events that follow, from the state in which the
  failed handler left the relay; the error is in the log when the loop ends.
\<close>

theorem run_continues_after_error:
  assumes "handle net ev (run net before r) = (Inl err, r')"
  shows "run net (before @ ev # after) r =
           run net after (r'\<lparr>console_error := console_error r' @ [err]\<rparr>)
         \<and> err \<in> set (console_error (run net (before @ ev # after) r))"
proof -
  have eq: "run net (before @ ev # after) r =
      run net after (r'\<lparr>console_error := console_error r' @ [err]\<rparr>)"
    using assms by (simp add: run_append)
  obtain more where
    "console_error (run net after (r'\<lparr>console_error := console_error r' @ [err]\<rparr>))
       = console_error (r'\<lparr>console_error := console_error r' @ [err]\<rparr>) @ more"
    using run_console_error_grows by blast
  then have "err \<in> set (console_error (run net after (r'\<lparr>console_error := console_error r' @ [err]\<rparr>)))"
    by simp
  with eq show ?thesis by simp
qed

text \<open>
  An instance: the indicator call of the first event rejects; the delta and the stream end
  that follow are still handled.
\<close>

theorem run_continues_after_error_witness:
  "handle first_call_rejects ContentBlockStart (run first_call_rejects [] new_relay) =
     (Inl ''network down'', new_relay\<lparr>calls := [SendEvent IndicatorUpdate_AI_STATE_GENERATING]\<rparr>)
   \<and> calls (run first_call_rejects ([] @ ContentBlockStart # [ContentBlockDelta (TextDelta ''Hi''), MessageStop]) new_relay) =
       [SendEvent IndicatorUpdate_AI_STATE_GENERATING, PartialUpdateMessage ''Hi'' True,
        PartialUpdateMessage ''Hi'' False, SendEvent IndicatorClear]
   \<and> ''network down'' \<in> set (console_error (run first_call_rejects ([] @ ContentBlockStart # [ContentBlockDelta (TextDelta ''Hi''), MessageStop]) new_relay))"
proof -
  have h: "handle first_call_rejects ContentBlockStart (run first_call_rejects [] new_relay) =
     (Inl ''network down'', new_relay\<lparr>calls := [SendEvent IndicatorUpdate_AI_STATE_GENERATING]\<rparr>)"
    by (simp add: new_relay_def first_call_rejects_def await_call_def)
  have c: "calls (run first_call_rejects [ContentBlockDelta (TextDelta ''Hi''), MessageStop]
        (new_relay\<lparr>calls := [SendEvent IndicatorUpdate_AI_STATE_GENERATING],
                    console_error := console_error (new_relay\<lparr>calls := [SendEvent IndicatorUpdate_AI_STATE_GENERATING]\<rparr>) @ [''network down'']\<rparr>)) =
       [SendEvent IndicatorUpdate_AI_STATE_GENERATING, PartialUpdateMessage ''Hi'' True,
        PartialUpdateMessage ''Hi'' False, SendEvent IndicatorClear]"
    by (simp add: new_relay_def first_call_rejects_def await_call_def should_flush_def)
  show ?thesis
    using run_continues_after_error [OF h, of "[ContentBlockDelta (TextDelta ''Hi''), MessageStop]"] h c
    by simp
qed

section \<open>Properties of the handlers\<close>

lemma unary_plus_label: "NumberToString (unary_plus ''Your quirks are: '') = ''NaN''"
  by (simp add: unary_plus_def StringToNumber_def ascii_white_space_def)

lemma issue_fields [simp]:
  "aiAgentCache (issue c s) = aiAgentCache s"
  "pendingAiAgents (issue c s) = pendingAiAgents s"
  "issued (issue c s) = issued s @ [c]"
  "console (issue c s) = console s"
  by (simp_all add: issue_def)

lemma log_line_fields [simp]:
  "aiAgentCache (log_line l s) = aiAgentCache s"
  "pendingAiAgents (log_line l s) = pendingAiAgents s"
  "issued (log_line l s) = issued s"
  "console (log_line l s) = console s @ [l]"
  by (simp_all add: log_line_def)

lemma warn_if_absent_fields [simp]:
  "aiAgentCache (warn_if_absent a i s) = aiAgentCache s"
  "pendingAiAgents (warn_if_absent a i s) = pendingAiAgents s"
  "issued (warn_if_absent a i s) = issued s"
  by (simp_all add: warn_if_absent_def)

lemma getAIAgentInfo_fields [simp]:
  "aiAgentCache (snd (getAIAgentInfo d e s)) = aiAgentCache s"
  "pendingAiAgents (snd (getAIAgentInfo d e s)) = pendingAiAgents s"
  "issued (snd (getAIAgentInfo d e s)) = issued s"
  by (simp_all add: getAIAgentInfo_def split: option.split)

lemma getAIAgentInfo_null: "fst (getAIAgentInfo None e s) = None"
  by (simp add: getAIAgentInfo_def split: option.split)

text \<open>
  Claim C9. For every profile that is not null, the system prompt of \<open>/new-ai-message\<close> has
  the text \<open>NaN\<close> where the label "Your quirks are: " was meant to stand, directly between
  the traits and the quirks: the unary plus turns the label into the number NaN before it
  is concatenated. That prompt is the one sent to the completion service.
\<close>

theorem quirks_label_becomes_NaN:
  "agentProfile (Some p) =
     Inr ((if (if truthy (gender p) then gender p else JString ''female'') = JString ''female''
           then ''You are a virtual girlfried named '' @ ToString (name p) @ ''.''
           else ''You are a virtual boyfriend named '' @ ToString (name p) @ ''.'')
          @ ''You have personality: '' @ ToString (personality p)
          @ ''and you style is '' @ ToString (style p) @ ''.''
          @ ''Your traits are: '' @ ToString (traits p)
          @ ''NaN''
          @ ToString (quirks p) @ ''.''
          @ ''You have a biography: '' @ ToString (bio p) @ ''.'')
   \<and> (case agentProfile (Some p) of
         Inl err \<Rightarrow> False
       | Inr prompt \<Rightarrow>
           resume (QueryResult (Some p) None) (Message_getAIAgentInfo agent_id) s =
             (Message_create agent_id, issue (AnthropicCreate prompt) s))"
proof -
  have "resume (QueryResult (Some p) None) (Message_getAIAgentInfo agent_id) s =
      message_prompt agent_id (Some p) s"
    by (simp add: getAIAgentInfo_def warn_if_absent_def)
  then show ?thesis
    by (simp add: agentProfile_def Let_def unary_plus_label message_prompt_def)
qed


lemmas handler_defs =
  start_ai_agent_def stop_ai_agent_def new_ai_message_def start_guard_def start_respond_def
  start_catch_def start_finally_def start_register_def message_prompt_def message_reply_def
  message_respond_def message_catch_def message_finally_def sweep_from_def sweep_delete_def
  getAIAgentInfo_def warn_if_absent_def with_default_def find_agent_id_def channel_id_updated_def
  issue_def log_line_def map_has_def inactivityThreshold_def initial_server_def Let_def
  fire_def process_ended_def

lemmas example_defs =
  luna_def agent1_def agent2_def body_c1_def members_c1_def two_idle_agents_def

text \<open>
  Claim C5 fails on \<open>/new-ai-message\<close>: when the profile lookup returns null the handler
  logs the warning that announces default values, then reads \<open>agentInfo.name\<close> of null; the
  \<open>catch\<close> answers with status 500, and no completion is requested. This holds in every
  state and for every identity; the last part runs a whole request.
\<close>

theorem null_profile_responds_500:
  "fst (resume (QueryResult None error) (Message_getAIAgentInfo agent_id) s) =
     Responded (Json500 ''Failed to start AI Agent'' ''Cannot read properties of null (reading 'name')'')
   \<and> issued (snd (resume (QueryResult None error) (Message_getAIAgentInfo agent_id) s)) = issued s
   \<and> ConsoleWarn (''Failed to fetch agent info for '' @ agent_id @ '', using default values'')
         \<in> set (console (snd (resume (QueryResult None error) (Message_getAIAgentInfo agent_id) s)))
   \<and> snd (exec [NewAiMessage body_c1, Settle 0 (Members members_c1),
                 Settle 0 (QueryResult None (Some ''no rows''))] (initial_server, [])) =
     [Responded (Json500 ''Failed to start AI Agent'' ''Cannot read properties of null (reading 'name')'')]"
proof -
  have "fst (resume (QueryResult None error) (Message_getAIAgentInfo agent_id) s) =
     Responded (Json500 ''Failed to start AI Agent'' ''Cannot read properties of null (reading 'name')'')"
    by (simp add: getAIAgentInfo_def message_prompt_def agentProfile_def message_catch_def
        split: option.split)
  moreover have "issued (snd (resume (QueryResult None error) (Message_getAIAgentInfo agent_id) s)) = issued s"
    by (simp add: getAIAgentInfo_def message_prompt_def agentProfile_def message_catch_def
        message_finally_def split: option.split)
  moreover have "ConsoleWarn (''Failed to fetch agent info for '' @ agent_id @ '', using default values'')
         \<in> set (console (snd (resume (QueryResult None error) (Message_getAIAgentInfo agent_id) s)))"
    by (simp add: getAIAgentInfo_def message_prompt_def agentProfile_def message_catch_def
        message_finally_def warn_if_absent_def split: option.split)
  moreover have "snd (exec [NewAiMessage body_c1, Settle 0 (Members members_c1),
                 Settle 0 (QueryResult None (Some ''no rows''))] (initial_server, [])) =
     [Responded (Json500 ''Failed to start AI Agent'' ''Cannot read properties of null (reading 'name')'')]"
    by (simp add: handler_defs example_defs agentProfile_def)
  ultimately show ?thesis by simp
qed

lemma message_exits [simp]:
  "pendingAiAgents (snd (message_respond a s)) = pendingAiAgents s - {a}"
  "pendingAiAgents (snd (message_catch e a s)) = pendingAiAgents s - {a}"
  "fst (message_respond a s) = Responded (Json200 ''AI Agent started'')"
  "fst (message_catch e a s) = Responded (Json500 ''Failed to start AI Agent'' e)"
  by (simp_all add: message_respond_def message_catch_def message_finally_def)

lemma message_prompt_pending:
  "pendingAiAgents (snd (message_prompt a i s)) \<subseteq> pendingAiAgents s"
  "fst (message_prompt a i s) = Responded r \<Longrightarrow>
     pendingAiAgents (snd (message_prompt a i s)) = pendingAiAgents s - {a}"
  by (auto simp: message_prompt_def split: sum.splits)

lemma message_reply_pending:
  "pendingAiAgents (snd (message_reply a bs s)) \<subseteq> pendingAiAgents s"
  "fst (message_reply a bs s) = Responded r \<Longrightarrow>
     pendingAiAgents (snd (message_reply a bs s)) = pendingAiAgents s - {a}"
  by (auto simp: message_reply_def split: list.splits content_block.splits if_splits)

lemma resume_message_subset:
  assumes "message_task_id t = Some agent_id"
  shows "pendingAiAgents (snd (resume v t s)) \<subseteq> pendingAiAgents s"
proof (cases t)
  case (Message_getAIAgentInfo a)
  show ?thesis
  proof (cases v)
    case (QueryResult d e)
    have "pendingAiAgents (snd (message_prompt a (fst (getAIAgentInfo d e s))
            (warn_if_absent a (fst (getAIAgentInfo d e s)) (snd (getAIAgentInfo d e s)))))
          \<subseteq> pendingAiAgents s"
      using message_prompt_pending(1) [of a "fst (getAIAgentInfo d e s)"
          "warn_if_absent a (fst (getAIAgentInfo d e s)) (snd (getAIAgentInfo d e s))"]
      by simp
    then show ?thesis
      using Message_getAIAgentInfo QueryResult by (simp add: case_prod_beta)
  qed (simp_all add: Message_getAIAgentInfo)
next
  case (Message_create a)
  then show ?thesis
    using message_reply_pending(1) [of a _ s] by (cases v) auto
next
  case (Message_sendMessage a)
  then show ?thesis by (cases v) auto
qed (use assms in simp_all)

lemma resume_message_responded:
  assumes "message_task_id t = Some agent_id" and "fst (resume v t s) = Responded r"
  shows "pendingAiAgents (snd (resume v t s)) = pendingAiAgents s - {agent_id}"
proof (cases t)
  case (Message_getAIAgentInfo a)
  show ?thesis
  proof (cases v)
    case (QueryResult d e)
    let ?i = "fst (getAIAgentInfo d e s)"
    let ?s = "warn_if_absent a ?i (snd (getAIAgentInfo d e s))"
    have eq: "resume v t s = message_prompt a ?i ?s"
      using Message_getAIAgentInfo QueryResult by (simp add: case_prod_beta)
    then have "fst (message_prompt a ?i ?s) = Responded r"
      using assms(2) by simp
    then have "pendingAiAgents (snd (message_prompt a ?i ?s)) = pendingAiAgents ?s - {a}"
      by (rule message_prompt_pending(2))
    then have "pendingAiAgents (snd (resume v t s)) = pendingAiAgents s - {a}"
      unfolding eq by simp
    moreover have "a = agent_id"
      using assms(1) Message_getAIAgentInfo by simp
    ultimately show ?thesis by simp
  qed (use assms Message_getAIAgentInfo in simp_all)
next
  case (Message_create a)
  show ?thesis
  proof (cases v)
    case (Completion bs)
    then show ?thesis
      using assms Message_create message_reply_pending(2) [of a bs s r] by simp
  qed (use assms Message_create in simp_all)
next
  case (Message_sendMessage a)
  then show ?thesis using assms by (cases v) simp_all
qed (use assms in simp_all)

lemma message_paths:
  "resume (Rejected e) (Message_create a) s =
     (Responded (Json500 ''Failed to start AI Agent'' e),
      message_finally a (log_line (ConsoleError ''Failed to start AI Agent'' e) s))"
  "resume (Rejected e) (Message_sendMessage a) s =
     (Responded (Json500 ''Failed to start AI Agent'' e),
      message_finally a (log_line (ConsoleError ''Failed to start AI Agent'' e) s))"
  "resume Resolved (Message_sendMessage a) s =
     (Responded (Json200 ''AI Agent started''), message_finally a s)"
  "resume (Completion (OtherBlock # bs)) (Message_create a) s =
     (Responded (Json200 ''AI Agent started''), message_finally a s)"
  "fst (resume (Completion []) (Message_create a) s) =
     Responded (Json500 ''Failed to start AI Agent'' ''Cannot read properties of undefined (reading 'type')'')"
  "fst (resume (QueryResult None err) (Message_getAIAgentInfo a) s) =
     Responded (Json500 ''Failed to start AI Agent'' ''Cannot read properties of null (reading 'name')'')"
  by (simp_all add: message_catch_def message_respond_def message_reply_def message_prompt_def
      agentProfile_def getAIAgentInfo_def split: option.split)

lemma message_finally_pending [simp]:
  "pendingAiAgents (message_finally a s) = pendingAiAgents s - {a}"
  by (simp add: message_finally_def)

lemma message_failure_pending:
  "pendingAiAgents (snd (resume (Completion []) (Message_create a) s)) = pendingAiAgents s - {a}"
  "pendingAiAgents (snd (resume (QueryResult None err) (Message_getAIAgentInfo a) s)) =
     pendingAiAgents s - {a}"
  by (simp_all add: message_reply_def message_prompt_def agentProfile_def getAIAgentInfo_def
      split: option.split)

lemma marker_installed_state:
  "exec marker_installed (initial_server, []) =
      (\<lparr>aiAgentCache = [], pendingAiAgents = {''A1''},
        issued = [QueryMembers ''messaging'' ''c1'', SupabaseSelect ''A1'', ChannelWatch ''c1''],
        console = []\<rparr>,
       [Start_watch ''anthropic'' ''messaging'' ''c1'' ''A1'' (Some luna)])"
  by (simp add: marker_installed_def handler_defs example_defs)

text \<open>
  Claim C10. No step of a \<open>/new-ai-message\<close> handler adds to the pending set, and every
  step that ends the request with a response removes the resolved identity from it. On the
  failure path that is: the completion call or \<open>sendMessage\<close> rejects, the completion has no
  content block, or the profile is null; each ends in the \<open>catch\<close> with status 500 and the
  \<open>finally\<close> deletes the identity. On the success path the message is sent, or the first
  block is not text, and the \<open>finally\<close> deletes the identity after the response. In
  particular: a start request for \<open>A1\<close> is suspended at \<open>channel.watch()\<close> with its marker
  installed; a \<open>/new-ai-message\<close> request for the same channel then runs to its response,
  in one run with success and in another with a rejected completion; either way the marker
  is gone while the start request is still suspended.
\<close>

theorem new_message_clears_pending:
  "(message_task_id t = Some agent_id \<longrightarrow>
      pendingAiAgents (snd (resume v t s)) \<subseteq> pendingAiAgents s)
   \<and> (message_task_id t = Some agent_id \<and> fst (resume v t s) = Responded r \<longrightarrow>
      pendingAiAgents (snd (resume v t s)) = pendingAiAgents s - {agent_id})
   \<and> pendingAiAgents (snd (resume v Message_queryMembers s)) = pendingAiAgents s
   \<and> pendingAiAgents (snd (new_ai_message body s)) = pendingAiAgents s
   \<and> fst (resume (Rejected e) (Message_create agent_id) s) =
       Responded (Json500 ''Failed to start AI Agent'' e)
   \<and> pendingAiAgents (snd (resume (Rejected e) (Message_create agent_id) s)) =
       pendingAiAgents s - {agent_id}
   \<and> fst (resume (Rejected e) (Message_sendMessage agent_id) s) =
       Responded (Json500 ''Failed to start AI Agent'' e)
   \<and> pendingAiAgents (snd (resume (Rejected e) (Message_sendMessage agent_id) s)) =
       pendingAiAgents s - {agent_id}
   \<and> fst (resume (Completion []) (Message_create agent_id) s) =
       Responded (Json500 ''Failed to start AI Agent'' ''Cannot read properties of undefined (reading 'type')'')
   \<and> pendingAiAgents (snd (resume (Completion []) (Message_create agent_id) s)) =
       pendingAiAgents s - {agent_id}
   \<and> fst (resume (QueryResult None err) (Message_getAIAgentInfo agent_id) s) =
       Responded (Json500 ''Failed to start AI Agent'' ''Cannot read properties of null (reading 'name')'')
   \<and> pendingAiAgents (snd (resume (QueryResult None err) (Message_getAIAgentInfo agent_id) s)) =
       pendingAiAgents s - {agent_id}
   \<and> fst (resume Resolved (Message_sendMessage agent_id) s) = Responded (Json200 ''AI Agent started'')
   \<and> pendingAiAgents (snd (resume Resolved (Message_sendMessage agent_id) s)) =
       pendingAiAgents s - {agent_id}
   \<and> fst (resume (Completion (OtherBlock # bs)) (Message_create agent_id) s) =
       Responded (Json200 ''AI Agent started'')
   \<and> pendingAiAgents (snd (resume (Completion (OtherBlock # bs)) (Message_create agent_id) s)) =
       pendingAiAgents s - {agent_id}
   \<and> pendingAiAgents (fst (exec marker_installed (initial_server, []))) = {''A1''}
   \<and> snd (exec marker_installed (initial_server, [])) =
       [Start_watch ''anthropic'' ''messaging'' ''c1'' ''A1'' (Some luna)]
   \<and> pendingAiAgents (fst (exec (marker_installed @ message_completes) (initial_server, []))) = {}
   \<and> snd (exec (marker_installed @ message_completes) (initial_server, [])) =
       [Start_watch ''anthropic'' ''messaging'' ''c1'' ''A1'' (Some luna),
        Responded (Json200 ''AI Agent started'')]
   \<and> pendingAiAgents (fst (exec (marker_installed @ message_fails) (initial_server, []))) = {}
   \<and> snd (exec (marker_installed @ message_fails) (initial_server, [])) =
       [Start_watch ''anthropic'' ''messaging'' ''c1'' ''A1'' (Some luna),
        Responded (Json500 ''Failed to start AI Agent'' ''overloaded'')]"
proof -
  have a: "pendingAiAgents (snd (resume v Message_queryMembers s)) = pendingAiAgents s"
    by (cases v) (simp_all split: option.split)
  have b: "pendingAiAgents (snd (new_ai_message body s)) = pendingAiAgents s"
    by (simp add: new_ai_message_def Let_def split: option.split)
  have d: "exec (marker_installed @ message_completes) (initial_server, []) =
      (\<lparr>aiAgentCache = [], pendingAiAgents = {},
        issued = [QueryMembers ''messaging'' ''c1'', SupabaseSelect ''A1'', ChannelWatch ''c1'',
                  QueryMembers ''messaging'' ''c1'', SupabaseSelect ''A1'',
                  AnthropicCreate ''You are a virtual girlfried named Luna.You have personality: warmand you style is casual.Your traits are: kind,wittyNaNhums.You have a biography: null.'',
                  SendMessage ''Hello!'' ''A1''],
        console = []\<rparr>,
       [Start_watch ''anthropic'' ''messaging'' ''c1'' ''A1'' (Some luna),
        Responded (Json200 ''AI Agent started'')])"
    by (simp add: marker_installed_def message_completes_def handler_defs example_defs
        agentProfile_def unary_plus_label)
  have f: "exec (marker_installed @ message_fails) (initial_server, []) =
      (\<lparr>aiAgentCache = [], pendingAiAgents = {},
        issued = [QueryMembers ''messaging'' ''c1'', SupabaseSelect ''A1'', ChannelWatch ''c1'',
                  QueryMembers ''messaging'' ''c1'', SupabaseSelect ''A1'',
                  AnthropicCreate ''You are a virtual girlfried named Luna.You have personality: warmand you style is casual.Your traits are: kind,wittyNaNhums.You have a biography: null.''],
        console = [ConsoleError ''Failed to start AI Agent'' ''overloaded'']\<rparr>,
       [Start_watch ''anthropic'' ''messaging'' ''c1'' ''A1'' (Some luna),
        Responded (Json500 ''Failed to start AI Agent'' ''overloaded'')])"
    by (simp add: marker_installed_def message_fails_def handler_defs example_defs
        agentProfile_def unary_plus_label)
  show ?thesis
    using resume_message_subset [of t agent_id v s] resume_message_responded [of t agent_id v s r] a b
    by (simp add: marker_installed_state d f message_paths message_failure_pending
        del: resume.simps)
qed

text \<open>An instance: the last step of that request when it succeeds, and when the completion
  call rejects.\<close>

theorem new_message_clears_pending_witness:
  "message_task_id (Message_sendMessage ''A1'') = Some ''A1''
   \<and> fst (resume Resolved (Message_sendMessage ''A1'') (fst (exec marker_installed (initial_server, [])))) =
       Responded (Json200 ''AI Agent started'')
   \<and> pendingAiAgents (fst (exec marker_installed (initial_server, []))) = {''A1''}
   \<and> pendingAiAgents
        (snd (resume Resolved (Message_sendMessage ''A1'') (fst (exec marker_installed (initial_server, []))))) = {}
   \<and> message_task_id (Message_create ''A1'') = Some ''A1''
   \<and> fst (resume (Rejected ''overloaded'') (Message_create ''A1'') (fst (exec marker_installed (initial_server, [])))) =
       Responded (Json500 ''Failed to start AI Agent'' ''overloaded'')
   \<and> pendingAiAgents
        (snd (resume (Rejected ''overloaded'') (Message_create ''A1'') (fst (exec marker_installed (initial_server, []))))) = {}"
proof -
  have c: "pendingAiAgents (fst (exec marker_installed (initial_server, []))) = {''A1''}"
    by (simp add: marker_installed_state)
  show ?thesis
    using new_message_clears_pending
        [where t = "Message_sendMessage ''A1''" and agent_id = "''A1''" and v = Resolved
           and s = "fst (exec marker_installed (initial_server, []))"
           and r = "Json200 ''AI Agent started''"]
      new_message_clears_pending
        [where t = "Message_create ''A1''" and agent_id = "''A1''" and v = "Rejected ''overloaded''"
           and s = "fst (exec marker_installed (initial_server, []))"
           and r = "Json500 ''Failed to start AI Agent'' ''overloaded''" and e = "''overloaded''"]
    by (simp add: c message_paths del: resume.simps)
qed

lemma ended_process_stays:
  assumes "process_ended ts"
  shows "exec evs (s, ts) = (s, ts)"
  by (induction evs) (simp_all add: fire_def assms)

text \<open>
  Claim C7 fails on the code. The timer callback awaits \<open>disposeAiAgent\<close> with no
  \<open>try\<close> around it, so when the disposal of an expired instance rejects, the rejection
  leaves the loop and the callback: nothing is logged, and the process ends with the
  failing instance and every later one undisposed, whatever is delivered afterwards. In
  the run shown both instances have expired, the disposal of the first rejects, and a
  later tick finds no process to run in. The handler of \<open>/stop-ai-agent\<close> awaits the same
  call inside a \<open>try\<close> and logs the rejection.
\<close>

theorem sweep_stops_at_first_rejection:
  "resume (Rejected err) (Sweep_dispose now i userId) s = (Unhandled err, s)
   \<and> exec evs (s, ts1 @ Unhandled err # ts2) = (s, ts1 @ Unhandled err # ts2)
   \<and> exec tick_then_rejection (two_idle_agents, []) =
       (two_idle_agents\<lparr>issued := [AgentDispose agent1]\<rparr>, [Unhandled ''dispose failed''])
   \<and> exec (tick_then_rejection @ [TimerTick 30005000]) (two_idle_agents, []) =
       (two_idle_agents\<lparr>issued := [AgentDispose agent1]\<rparr>, [Unhandled ''dispose failed''])
   \<and> aiAgentCache two_idle_agents = [Some (''A1'', agent1), Some (''A2'', agent2)]
   \<and> 30000000 - lastInteraction agent2 > inactivityThreshold
   \<and> console two_idle_agents = []
   \<and> resume (Rejected err) (Stop_dispose agent_id) s =
       (Responded (Json500 ''Failed to stop AI Agent'' err),
        log_line (ConsoleError ''Failed to stop AI Agent'' err) s)"
proof -
  have "exec evs (s, ts1 @ Unhandled err # ts2) = (s, ts1 @ Unhandled err # ts2)"
    by (rule ended_process_stays) (simp add: process_ended_def)
  moreover have "exec tick_then_rejection (two_idle_agents, []) =
       (two_idle_agents\<lparr>issued := [AgentDispose agent1]\<rparr>, [Unhandled ''dispose failed''])"
    by (simp add: tick_then_rejection_def handler_defs example_defs)
  moreover have "exec (tick_then_rejection @ [TimerTick 30005000]) (two_idle_agents, []) =
       (two_idle_agents\<lparr>issued := [AgentDispose agent1]\<rparr>, [Unhandled ''dispose failed''])"
    by (simp add: tick_then_rejection_def handler_defs example_defs)
  moreover have "aiAgentCache two_idle_agents = [Some (''A1'', agent1), Some (''A2'', agent2)]"
    "30000000 - lastInteraction agent2 > inactivityThreshold" "console two_idle_agents = []"
    by (simp_all add: handler_defs example_defs)
  ultimately show ?thesis by simp
qed

lemma map_has_map_set: "map_has (map_set m k v) k' = (k' = k \<or> map_has m k')"
proof (induction m)
  case Nil
  then show ?case by (simp add: map_has_def)
next
  case (Cons e m)
  then show ?case
    by (cases e) (auto simp: map_has_def split: if_splits)
qed

lemma map_has_map_delete: "map_has (map_delete m k) k' \<Longrightarrow> map_has m k'"
proof (induction m)
  case Nil
  then show ?case by simp
next
  case (Cons e m)
  then show ?case
    by (cases e) (auto simp: map_has_def split: if_splits)
qed

lemma registry_disjoint_shrink:
  assumes "registry_disjoint s"
    and "pendingAiAgents s' \<subseteq> pendingAiAgents s"
    and "\<And>k. map_has (aiAgentCache s') k \<Longrightarrow> map_has (aiAgentCache s) k"
  shows "registry_disjoint s'"
  using assms unfolding registry_disjoint_def by blast

lemma start_exits [simp]:
  "pendingAiAgents (snd (start_respond a s)) = pendingAiAgents s - {a}"
  "pendingAiAgents (snd (start_catch e a s)) = pendingAiAgents s - {a}"
  "aiAgentCache (snd (start_respond a s)) = aiAgentCache s"
  "aiAgentCache (snd (start_catch e a s)) = aiAgentCache s"
  "fst (start_respond a s) = Responded (Json200 ''AI Agent started'')"
  "fst (start_catch e a s) = Responded (Json500 ''Failed to start AI Agent'' e)"
  by (simp_all add: start_respond_def start_catch_def start_finally_def)

lemma start_register_fields [simp]:
  "pendingAiAgents (start_register a g s) = pendingAiAgents s"
  "aiAgentCache (start_register a g s) = map_set (aiAgentCache s) a g"
  "issued (start_register a g s) = issued s"
  by (simp_all add: start_register_def)

lemma message_cache [simp]:
  "aiAgentCache (snd (message_respond a s)) = aiAgentCache s"
  "aiAgentCache (snd (message_catch e a s)) = aiAgentCache s"
  "aiAgentCache (snd (message_prompt a i s)) = aiAgentCache s"
  "aiAgentCache (snd (message_reply a bs s)) = aiAgentCache s"
  by (simp_all add: message_respond_def message_catch_def message_finally_def
      message_prompt_def message_reply_def split: sum.split list.split content_block.split)

lemma sweep_fields [simp]:
  "pendingAiAgents (snd (sweep_from now i s)) = pendingAiAgents s"
  "aiAgentCache (snd (sweep_from now i s)) = aiAgentCache s"
  "pendingAiAgents (sweep_delete u s) = pendingAiAgents s"
  "aiAgentCache (sweep_delete u s) = map_delete (aiAgentCache s) u"
  by (simp_all add: sweep_from_def sweep_delete_def split: option.split)

lemma start_guard_disjoint:
  assumes "registry_disjoint s"
  shows "registry_disjoint (snd (start_guard pf ct cid a i s))"
  using assms by (auto simp: start_guard_def registry_disjoint_def)

lemma start_init_disjoint:
  assumes "registry_disjoint s"
  shows "registry_disjoint (snd (start_respond a (start_register a g s)))"
  using assms by (auto simp: registry_disjoint_def map_has_map_set)

lemma resume_disjoint:
  assumes "registry_disjoint s"
  shows "registry_disjoint (snd (resume v t s))"
proof (cases t)
  case (Start_queryMembers pf ct cid)
  then show ?thesis
    using assms by (cases v) (auto intro: registry_disjoint_shrink split: option.split)
next
  case (Start_getAIAgentInfo pf ct cid a)
  show ?thesis
  proof (cases v)
    case (QueryResult d e)
    let ?i = "fst (getAIAgentInfo d e s)"
    let ?s = "warn_if_absent a ?i (snd (getAIAgentInfo d e s))"
    have "registry_disjoint ?s"
      using assms by (auto intro: registry_disjoint_shrink)
    then have "registry_disjoint (snd (start_guard pf ct cid a ?i ?s))"
      by (rule start_guard_disjoint)
    then show ?thesis
      using Start_getAIAgentInfo QueryResult by (simp add: case_prod_beta)
  qed (use assms Start_getAIAgentInfo in simp_all)
next
  case (Start_watch pf ct cid a i)
  then show ?thesis
    using assms by (cases v) (auto intro: registry_disjoint_shrink)
next
  case (Start_createAgent a)
  then show ?thesis
    using assms by (cases v) (auto intro: registry_disjoint_shrink)
next
  case (Start_init a g)
  then show ?thesis
    using assms start_init_disjoint [OF assms, of a g]
    by (cases v) (auto intro: registry_disjoint_shrink)
next
  case (Start_dispose a)
  then show ?thesis
    using assms by (cases v) (auto intro: registry_disjoint_shrink)
next
  case Stop_queryMembers
  then show ?thesis
    using assms by (cases v) (auto intro: registry_disjoint_shrink split: option.split)
next
  case (Stop_dispose a)
  then show ?thesis
    using assms
    by (cases v) (auto intro!: registry_disjoint_shrink [OF assms] dest: map_has_map_delete)
next
  case Message_queryMembers
  then show ?thesis
    using assms by (cases v) (auto intro: registry_disjoint_shrink split: option.split)
next
  case (Message_getAIAgentInfo a)
  then show ?thesis
    using assms resume_message_subset [of t a v s]
    by (cases v) (auto intro!: registry_disjoint_shrink [OF assms] simp: case_prod_beta)
next
  case (Message_create a)
  then show ?thesis
    using assms resume_message_subset [of t a v s]
    by (cases v) (auto intro!: registry_disjoint_shrink [OF assms])
next
  case (Message_sendMessage a)
  then show ?thesis
    using assms by (cases v) (auto intro: registry_disjoint_shrink)
next
  case (Sweep_dispose now i u)
  then show ?thesis
    using assms
    by (cases v) (auto intro!: registry_disjoint_shrink [OF assms] dest: map_has_map_delete)
qed (use assms in simp_all)

lemma entry_unchanged [simp]:
  "pendingAiAgents (snd (start_ai_agent b s)) = pendingAiAgents s"
  "aiAgentCache (snd (start_ai_agent b s)) = aiAgentCache s"
  "pendingAiAgents (snd (stop_ai_agent b s)) = pendingAiAgents s"
  "aiAgentCache (snd (stop_ai_agent b s)) = aiAgentCache s"
  "pendingAiAgents (snd (new_ai_message b s)) = pendingAiAgents s"
  "aiAgentCache (snd (new_ai_message b s)) = aiAgentCache s"
  by (simp_all add: start_ai_agent_def stop_ai_agent_def new_ai_message_def Let_def
      split: option.split)

lemma deliver_disjoint:
  assumes "registry_disjoint (fst st)"
  shows "registry_disjoint (fst (deliver e st))"
proof (cases st)
  case (Pair s ts)
  then have s: "registry_disjoint s" using assms by simp
  show ?thesis
  proof (cases e)
    case (Settle n v)
    then show ?thesis
      using Pair s resume_disjoint [OF s, of v "ts ! n"] by (simp add: case_prod_beta)
  qed (use Pair s in \<open>auto simp: case_prod_beta registry_disjoint_def\<close>)
qed

lemma fire_disjoint:
  assumes "registry_disjoint (fst st)"
  shows "registry_disjoint (fst (fire e st))"
  using assms by (simp add: fire_def deliver_disjoint)

lemma exec_disjoint:
  "registry_disjoint (fst st) \<Longrightarrow> registry_disjoint (fst (exec evs st))"
  by (induction evs arbitrary: st) (simp_all add: fire_disjoint)

lemma creation_path_clears:
  assumes "start_creation_id t = Some agent_id" and "fst (resume v t s) = Responded r"
  shows "agent_id \<notin> pendingAiAgents (snd (resume v t s))"
proof (cases t)
  case (Start_watch pf ct cid a i)
  then show ?thesis using assms by (cases v) auto
next
  case (Start_createAgent a)
  then show ?thesis using assms by (cases v) auto
next
  case (Start_init a g)
  then show ?thesis using assms by (cases v) (auto split: if_splits)
next
  case (Start_dispose a)
  then show ?thesis using assms by (cases v) auto
qed (use assms in simp_all)

lemma start_failure_path:
  assumes "start_creation_id t = Some agent_id"
  shows "resume (Rejected e) t s =
           (Responded (Json500 ''Failed to start AI Agent'' e),
            start_finally agent_id (log_line (ConsoleError ''Failed to start AI Agent'' e) s))"
  using assms by (cases t) (simp_all add: start_catch_def)

lemma start_success_path:
  "\<not> map_has (aiAgentCache s) agent_id \<Longrightarrow>
     resume Resolved (Start_init agent_id agent) s =
       (Responded (Json200 ''AI Agent started''), start_finally agent_id (start_register agent_id agent s))"
  "resume Resolved (Start_dispose agent_id) s =
     (Responded (Json200 ''AI Agent started''), start_finally agent_id s)"
  by (simp_all add: start_respond_def)

lemma start_finally_fields [simp]:
  "pendingAiAgents (start_finally a s) = pendingAiAgents s - {a}"
  "aiAgentCache (start_finally a s) = aiAgentCache s"
  by (simp_all add: start_finally_def)

lemma start_reaches_init_state:
  "exec start_reaches_init (initial_server, []) =
     (\<lparr>aiAgentCache = [], pendingAiAgents = {''A1''},
       issued = [QueryMembers ''messaging'' ''c1'', SupabaseSelect ''A1'', ChannelWatch ''c1'',
                 CreateAgent ''A1'' ''anthropic'' ''messaging'' ''c1'' (Some luna), AgentInit agent1],
       console = []\<rparr>,
      [Start_init ''A1'' agent1])"
  by (simp add: start_reaches_init_def handler_defs example_defs)

text \<open>
  Claim C3. A handler runs without interruption from one \<open>await\<close> to the next, so the
  instants of the program are the points at which control is with the event loop: every
  handler is suspended at an \<open>await\<close> or has ended. At each of them no identity is both
  pending and active: the property holds initially and every event preserves it, whatever
  requests, timer ticks and settlements are delivered, in whatever order. Line 118 and the
  \<open>finally\<close> of line 132 run in one such stretch. The marker is removed on both paths of
  creation. Failure: when the call awaited on the creation path (\<open>watch\<close>, \<open>createAgent\<close>,
  \<open>init\<close> or the \<open>dispose\<close> of line 116) rejects, the request is answered with status 500
  and the identity is out of the pending set. Success: when \<open>init\<close> resolves and the
  identity is not yet active, the agent is registered, the request is answered, and the
  identity is out of the pending set; likewise when the \<open>dispose\<close> of line 116 resolves.
\<close>

theorem pending_and_active_disjoint:
  "(registry_disjoint s \<longrightarrow> registry_disjoint (fst (exec evs (s, ts))))
   \<and> registry_disjoint initial_server
   \<and> (start_creation_id t = Some agent_id \<and> fst (resume v t s) = Responded r \<longrightarrow>
        agent_id \<notin> pendingAiAgents (snd (resume v t s)))
   \<and> (start_creation_id t = Some agent_id \<longrightarrow>
        fst (resume (Rejected e) t s) = Responded (Json500 ''Failed to start AI Agent'' e)
        \<and> pendingAiAgents (snd (resume (Rejected e) t s)) = pendingAiAgents s - {agent_id}
        \<and> aiAgentCache (snd (resume (Rejected e) t s)) = aiAgentCache s)
   \<and> (\<not> map_has (aiAgentCache s) agent_id \<longrightarrow>
        fst (resume Resolved (Start_init agent_id agent) s) = Responded (Json200 ''AI Agent started'')
        \<and> pendingAiAgents (snd (resume Resolved (Start_init agent_id agent) s)) =
            pendingAiAgents s - {agent_id}
        \<and> map_has (aiAgentCache (snd (resume Resolved (Start_init agent_id agent) s))) agent_id)
   \<and> fst (resume Resolved (Start_dispose agent_id) s) = Responded (Json200 ''AI Agent started'')
   \<and> pendingAiAgents (snd (resume Resolved (Start_dispose agent_id) s)) =
       pendingAiAgents s - {agent_id}"
proof -
  have inv: "registry_disjoint s \<longrightarrow> registry_disjoint (fst (exec evs (s, ts)))"
    using exec_disjoint [of "(s, ts)" evs] by simp
  have init: "registry_disjoint initial_server"
    by (simp add: registry_disjoint_def initial_server_def)
  have resp: "start_creation_id t = Some agent_id \<and> fst (resume v t s) = Responded r \<longrightarrow>
        agent_id \<notin> pendingAiAgents (snd (resume v t s))"
    using creation_path_clears [of t agent_id v s r] by blast
  have fail: "start_creation_id t = Some agent_id \<longrightarrow>
        fst (resume (Rejected e) t s) = Responded (Json500 ''Failed to start AI Agent'' e)
        \<and> pendingAiAgents (snd (resume (Rejected e) t s)) = pendingAiAgents s - {agent_id}
        \<and> aiAgentCache (snd (resume (Rejected e) t s)) = aiAgentCache s"
    by (simp add: start_failure_path del: resume.simps)
  have succ: "\<not> map_has (aiAgentCache s) agent_id \<longrightarrow>
        fst (resume Resolved (Start_init agent_id agent) s) = Responded (Json200 ''AI Agent started'')
        \<and> pendingAiAgents (snd (resume Resolved (Start_init agent_id agent) s)) =
            pendingAiAgents s - {agent_id}
        \<and> map_has (aiAgentCache (snd (resume Resolved (Start_init agent_id agent) s))) agent_id"
    by (simp add: start_success_path(1) map_has_map_set del: resume.simps)
  have disp: "fst (resume Resolved (Start_dispose agent_id) s) = Responded (Json200 ''AI Agent started'')"
    "pendingAiAgents (snd (resume Resolved (Start_dispose agent_id) s)) = pendingAiAgents s - {agent_id}"
    by (simp_all add: start_success_path(2) del: resume.simps)
  from inv init resp fail succ disp show ?thesis by blast
qed

text \<open>
  An instance: a start request for \<open>A1\<close> run up to \<open>agent.init()\<close>, and from there once
  with \<open>init\<close> resolving and once with \<open>init\<close> rejecting.
\<close>

theorem pending_and_active_disjoint_witness:
  "registry_disjoint initial_server
   \<and> registry_disjoint (fst (exec (start_reaches_init @ [Settle 0 Resolved]) (initial_server, [])))
   \<and> registry_disjoint (fst (exec (start_reaches_init @ [Settle 0 (Rejected ''init failed'')]) (initial_server, [])))
   \<and> start_creation_id (Start_init ''A1'' agent1) = Some ''A1''
   \<and> pendingAiAgents (fst (exec start_reaches_init (initial_server, []))) = {''A1''}
   \<and> \<not> map_has (aiAgentCache (fst (exec start_reaches_init (initial_server, [])))) ''A1''
   \<and> fst (resume Resolved (Start_init ''A1'' agent1) (fst (exec start_reaches_init (initial_server, [])))) =
       Responded (Json200 ''AI Agent started'')
   \<and> pendingAiAgents
        (snd (resume Resolved (Start_init ''A1'' agent1) (fst (exec start_reaches_init (initial_server, []))))) = {}
   \<and> map_has (aiAgentCache
        (snd (resume Resolved (Start_init ''A1'' agent1) (fst (exec start_reaches_init (initial_server, [])))))) ''A1''
   \<and> fst (resume (Rejected ''init failed'') (Start_init ''A1'' agent1)
             (fst (exec start_reaches_init (initial_server, [])))) =
       Responded (Json500 ''Failed to start AI Agent'' ''init failed'')
   \<and> pendingAiAgents
        (snd (resume (Rejected ''init failed'') (Start_init ''A1'' agent1)
               (fst (exec start_reaches_init (initial_server, []))))) = {}"
proof -
  let ?s = "fst (exec start_reaches_init (initial_server, []))"
  have p: "pendingAiAgents ?s = {''A1''}" "\<not> map_has (aiAgentCache ?s) ''A1''"
    by (simp_all add: start_reaches_init_state map_has_def)
  show ?thesis
    using pending_and_active_disjoint
        [where s = initial_server and evs = "start_reaches_init @ [Settle 0 Resolved]" and ts = "[]"]
      pending_and_active_disjoint
        [where s = initial_server and evs = "start_reaches_init @ [Settle 0 (Rejected ''init failed'')]"
           and ts = "[]"]
      pending_and_active_disjoint
        [where s = ?s and t = "Start_init ''A1'' agent1" and agent_id = "''A1''"
           and agent = agent1 and e = "''init failed''"]
      p
    by (simp del: resume.simps)
qed

section \<open>Single flight of two start requests\<close>

lemma in_flight_sym: "in_flight p q active pending k = in_flight q p active pending k"
  by (cases p; cases q) simp_all

lemma factory_issue [simp]:
  "factory_invocations a (issue c s) = factory_invocations a s + (if is_createAgent_for a c then 1 else 0)"
  by (simp add: factory_invocations_def)

lemma factory_same [simp]:
  "factory_invocations a (log_line l s) = factory_invocations a s"
  "factory_invocations a (warn_if_absent b i s) = factory_invocations a s"
  "factory_invocations a (snd (getAIAgentInfo d e s)) = factory_invocations a s"
  "factory_invocations a (start_register b g s) = factory_invocations a s"
  "factory_invocations a (snd (start_respond b s)) = factory_invocations a s"
  "factory_invocations a (s\<lparr>pendingAiAgents := P\<rparr>) = factory_invocations a s"
  by (simp_all add: factory_invocations_def start_respond_def start_finally_def
      start_register_def warn_if_absent_def log_line_def getAIAgentInfo_def split: option.split)

text \<open>One step of one of the two requests, the other being at stage q.\<close>

lemma in_flight_step:
  assumes "c0 \<le> factory_invocations a s"
    and "in_flight (stage_of a t) q (map_has (aiAgentCache s) a) (a \<in> pendingAiAgents s)
           (factory_invocations a s - c0)"
    and "admissible_value a v"
  shows "c0 \<le> factory_invocations a (snd (resume v t s)) \<and>
         in_flight (stage_of a (fst (resume v t s))) q
           (map_has (aiAgentCache (snd (resume v t s))) a)
           (a \<in> pendingAiAgents (snd (resume v t s)))
           (factory_invocations a (snd (resume v t s)) - c0)"
proof (cases t)
  case (Start_queryMembers pf ct cid)
  then show ?thesis
    using assms by (cases v) auto
next
  case (Start_getAIAgentInfo pf ct cid b)
  show ?thesis
  proof (cases v)
    case (QueryResult d e)
    let ?i = "fst (getAIAgentInfo d e s)"
    let ?s = "warn_if_absent b ?i (snd (getAIAgentInfo d e s))"
    have r: "resume v t s = start_guard pf ct cid b ?i ?s"
      using Start_getAIAgentInfo QueryResult by (simp add: case_prod_beta)
    show ?thesis
      unfolding r using Start_getAIAgentInfo assms(1,2)
      by (cases q) (auto simp: start_guard_def split: if_splits)
  qed (use assms Start_getAIAgentInfo in simp_all)
next
  case (Start_watch pf ct cid b i)
  then show ?thesis
    using assms by (cases v; cases q) (auto split: if_splits)
next
  case (Start_createAgent b)
  then show ?thesis
    using assms by (cases v; cases q) (auto split: if_splits)
next
  case (Start_init b g)
  then show ?thesis
    using assms by (cases v; cases q) (auto simp: map_has_map_set split: if_splits)
next
  case (Responded r)
  then show ?thesis using assms by simp
qed (use assms in simp_all)


lemma short_list_cases:
  assumes "length ts \<le> 2"
  obtains "ts = []" | t where "ts = [t]" | t1 t2 where "ts = [t1, t2]"
proof (cases ts)
  case Nil
  then show ?thesis using that(1) by simp
next
  case (Cons t ts')
  show ?thesis
  proof (cases ts')
    case Nil
    then show ?thesis using Cons that(2) by simp
  next
    case (Cons t' ts'')
    then have "ts'' = []" using assms \<open>ts = t # ts'\<close> by simp
    then show ?thesis using Cons \<open>ts = t # ts'\<close> that(3) by simp
  qed
qed

lemma stages_length: "stages a ts = Some pq \<Longrightarrow> length ts \<le> 2"
  by (cases "(a, ts)" rule: stages.cases) simp_all

lemma one_flight_length: "one_flight a c0 (s, ts) \<Longrightarrow> length ts \<le> 2"
  by (auto simp: one_flight_def split: option.splits dest: stages_length)

lemma start_ai_agent_admissible:
  assumes "admissible a (StartAiAgent body)"
  shows "\<exists>pf ct cid. start_ai_agent body s =
           (Start_queryMembers pf ct cid, issue (QueryMembers ct cid) s)"
  using assms by (auto simp: start_ai_agent_def Let_def split: option.splits)

lemma one_flight_deliver:
  assumes "one_flight a c0 (s, ts)" and "admissible a e"
    and "length (snd (deliver e (s, ts))) \<le> 2"
  shows "one_flight a c0 (deliver e (s, ts))"
proof (cases e)
  case (StartAiAgent body)
  then obtain pf ct cid where
    b: "start_ai_agent body s = (Start_queryMembers pf ct cid, issue (QueryMembers ct cid) s)"
    using assms(2) start_ai_agent_admissible by blast
  have "length ts \<le> 1"
    using assms(3) StartAiAgent b by simp
  then consider "ts = []" | t where "ts = [t]"
    by (cases ts) auto
  then show ?thesis
  proof cases
    case 1
    then show ?thesis
      using assms(1) StartAiAgent b by (simp add: one_flight_def)
  next
    case 2
    then show ?thesis
      using assms(1) StartAiAgent b by (simp add: one_flight_def)
  qed
next
  case (Settle n v)
  then have v: "admissible_value a v"
    using assms(2) by simp
  have c0: "c0 \<le> factory_invocations a s"
    using assms(1) by (simp add: one_flight_def)
  from one_flight_length [OF assms(1)] show ?thesis
  proof (cases ts rule: short_list_cases)
    case 1
    then show ?thesis using assms(1) Settle by simp
  next
    case (2 t)
    show ?thesis
    proof (cases "n = 0")
      case True
      have "in_flight (stage_of a t) BeforeGuard (map_has (aiAgentCache s) a)
              (a \<in> pendingAiAgents s) (factory_invocations a s - c0)"
        using assms(1) 2 by (simp add: one_flight_def)
      from in_flight_step [OF c0 this v] show ?thesis
        using True 2 Settle by (simp add: one_flight_def case_prod_beta del: resume.simps)
    next
      case False
      then show ?thesis using assms(1) 2 Settle by simp
    qed
  next
    case (3 t1 t2)
    consider "n = 0" | "n = 1" | "2 \<le> n" by linarith
    then show ?thesis
    proof cases
      case 1
      have "in_flight (stage_of a t1) (stage_of a t2) (map_has (aiAgentCache s) a)
              (a \<in> pendingAiAgents s) (factory_invocations a s - c0)"
        using assms(1) 3 by (simp add: one_flight_def)
      from in_flight_step [OF c0 this v] show ?thesis
        using 1 3 Settle by (simp add: one_flight_def case_prod_beta del: resume.simps)
    next
      case 2
      have "in_flight (stage_of a t2) (stage_of a t1) (map_has (aiAgentCache s) a)
              (a \<in> pendingAiAgents s) (factory_invocations a s - c0)"
        using assms(1) 3 by (simp add: one_flight_def in_flight_sym)
      from in_flight_step [OF c0 this v] show ?thesis
        using 2 3 Settle
        by (simp add: one_flight_def case_prod_beta in_flight_sym del: resume.simps)
    next
      case 3
      then show ?thesis using assms(1) \<open>ts = [t1, t2]\<close> Settle by simp
    qed
  qed
qed (use assms(2) in simp_all)

lemma deliver_length: "length (snd st) \<le> length (snd (deliver e st))"
  by (cases st; cases e) (simp_all add: case_prod_beta)

lemma fire_length: "length (snd st) \<le> length (snd (fire e st))"
  by (simp add: fire_def deliver_length)

lemma exec_length: "length (snd st) \<le> length (snd (exec evs st))"
proof (induction evs arbitrary: st)
  case Nil
  then show ?case by simp
next
  case (Cons e evs)
  have "length (snd st) \<le> length (snd (fire e st))" by (rule fire_length)
  also have "\<dots> \<le> length (snd (exec evs (fire e st)))" by (rule Cons.IH)
  finally show ?case by simp
qed

lemma one_flight_exec:
  assumes "one_flight a c0 st" and "\<forall>e \<in> set evs. admissible a e"
    and "length (snd (exec evs st)) \<le> 2"
  shows "one_flight a c0 (exec evs st)"
  using assms
proof (induction evs arbitrary: st)
  case Nil
  then show ?case by simp
next
  case (Cons e evs)
  have len: "length (snd (fire e st)) \<le> 2"
    using exec_length [of "fire e st" evs] Cons.prems(3) by simp
  have "one_flight a c0 (fire e st)"
  proof (cases "process_ended (snd st)")
    case True
    then show ?thesis using Cons.prems(1) by (simp add: fire_def)
  next
    case False
    then show ?thesis
      using one_flight_deliver [of a c0 "fst st" "snd st" e] Cons.prems(1,2) len
      by (simp add: fire_def)
  qed
  then show ?case
    using Cons.IH [of "fire e st"] Cons.prems(2,3) by simp
qed

lemma guard_skips:
  assumes "map_has (aiAgentCache s) a \<or> a \<in> pendingAiAgents s"
  shows "fst (resume (QueryResult d e) (Start_getAIAgentInfo pf ct cid a) s) =
           Responded (Json200 ''AI Agent started'')"
    and "issued (snd (resume (QueryResult d e) (Start_getAIAgentInfo pf ct cid a) s)) = issued s"
  using assms
  by (auto simp: case_prod_beta start_guard_def start_respond_def start_finally_def)

text \<open>
  Claim C4, amended. A start request that finds the identity active or pending when it
  evaluates the guard answers at once and issues no call: the factory is not invoked. Two
  start requests for the same identity, with no other handler running and no awaited call
  rejecting, cause exactly one factory invocation by the time both have been answered:
  whenever each of them arrives (the second may arrive before the first reaches the guard,
  after it has passed the guard, or after it has been answered) and in whatever order
  their steps are interleaved.
\<close>

theorem single_flight_of_two_starts:
  "(map_has (aiAgentCache s) a \<or> a \<in> pendingAiAgents s \<longrightarrow>
      fst (resume (QueryResult d e) (Start_getAIAgentInfo pf ct cid a) s) =
        Responded (Json200 ''AI Agent started'')
      \<and> issued (snd (resume (QueryResult d e) (Start_getAIAgentInfo pf ct cid a) s)) = issued s)
   \<and> (\<not> map_has (aiAgentCache s) a \<and> a \<notin> pendingAiAgents s
       \<and> stages a ts = Some (BeforeGuard, BeforeGuard)
       \<and> (\<forall>ev \<in> set evs. admissible a ev)
       \<and> exec evs (s, ts) = (s', [Responded r1, Responded r2])
       \<longrightarrow> factory_invocations a s' = factory_invocations a s + 1)"
proof -
  have "factory_invocations a s' = factory_invocations a s + 1"
    if h: "\<not> map_has (aiAgentCache s) a" "a \<notin> pendingAiAgents s"
      "stages a ts = Some (BeforeGuard, BeforeGuard)"
      "\<forall>ev \<in> set evs. admissible a ev"
      "exec evs (s, ts) = (s', [Responded r1, Responded r2])"
  proof -
    have "one_flight a (factory_invocations a s) (s, ts)"
      using h(1,2,3) by (simp add: one_flight_def)
    from one_flight_exec [OF this h(4)] h(5)
    have "one_flight a (factory_invocations a s) (s', [Responded r1, Responded r2])"
      by simp
    then show ?thesis
      by (auto simp: one_flight_def)
  qed
  then show ?thesis
    using guard_skips [of s a d e pf ct cid] by blast
qed


lemma two_starts_at_guard_state:
  "exec two_starts_at_guard (initial_server, []) =
     (initial_server\<lparr>issued := [QueryMembers ''messaging'' ''c1'', QueryMembers ''messaging'' ''c1'',
                                 SupabaseSelect ''A1'', SupabaseSelect ''A1'']\<rparr>,
      [Start_getAIAgentInfo ''anthropic'' ''messaging'' ''c1'' ''A1'',
       Start_getAIAgentInfo ''anthropic'' ''messaging'' ''c1'' ''A1''])"
  by (simp add: two_starts_at_guard_def handler_defs example_defs)

lemma second_start_arrives_late_state:
  "exec (take 3 second_start_arrives_late) (initial_server, []) =
     (\<lparr>aiAgentCache = [], pendingAiAgents = {''A1''},
       issued = [QueryMembers ''messaging'' ''c1'', SupabaseSelect ''A1'', ChannelWatch ''c1''],
       console = []\<rparr>,
      [Start_watch ''anthropic'' ''messaging'' ''c1'' ''A1'' (Some luna)])"
  "exec second_start_arrives_late (initial_server, []) =
     (\<lparr>aiAgentCache = [Some (''A1'', agent1)], pendingAiAgents = {},
       issued = [QueryMembers ''messaging'' ''c1'', SupabaseSelect ''A1'', ChannelWatch ''c1'',
                 QueryMembers ''messaging'' ''c1'', SupabaseSelect ''A1'',
                 CreateAgent ''A1'' ''anthropic'' ''messaging'' ''c1'' (Some luna), AgentInit agent1],
       console = []\<rparr>,
      [Responded (Json200 ''AI Agent started''), Responded (Json200 ''AI Agent started'')])"
  by (simp_all add: second_start_arrives_late_def handler_defs example_defs)

text \<open>
  Claim C4, as stated, fails: two start requests overlap, the \<open>init\<close> of the first rejects,
  its \<open>finally\<close> clears the marker, and the second then passes the guard and calls the
  factory again. Two factory invocations.
\<close>

theorem failed_start_is_repeated:
  "snd (exec first_start_fails (initial_server, [])) =
     [Responded (Json500 ''Failed to start AI Agent'' ''init failed''),
      Responded (Json200 ''AI Agent started'')]
   \<and> factory_invocations ''A1'' (fst (exec first_start_fails (initial_server, []))) = 2"
  by (simp add: first_start_fails_def handler_defs example_defs factory_invocations_def)

text \<open>
  Instances: the second request arrives when the first is suspended at \<open>channel.watch()\<close>,
  finds the marker and answers, and the first completes; the step of the second at the
  guard; and both requests suspended before the guard, then run to their answers.
\<close>

theorem single_flight_of_two_starts_witness:
  "\<not> map_has (aiAgentCache initial_server) ''A1''
   \<and> ''A1'' \<notin> pendingAiAgents initial_server
   \<and> stages ''A1'' [] = Some (BeforeGuard, BeforeGuard)
   \<and> list_all (admissible ''A1'') second_start_arrives_late
   \<and> snd (exec (take 3 second_start_arrives_late) (initial_server, [])) =
       [Start_watch ''anthropic'' ''messaging'' ''c1'' ''A1'' (Some luna)]
   \<and> snd (exec second_start_arrives_late (initial_server, [])) =
       [Responded (Json200 ''AI Agent started''), Responded (Json200 ''AI Agent started'')]
   \<and> factory_invocations ''A1'' (fst (exec second_start_arrives_late (initial_server, []))) =
       factory_invocations ''A1'' initial_server + 1
   \<and> factory_invocations ''A1'' initial_server = 0
   \<and> ''A1'' \<in> pendingAiAgents (fst (exec (take 3 second_start_arrives_late) (initial_server, [])))
   \<and> fst (resume (QueryResult (Some luna) None)
             (Start_getAIAgentInfo ''anthropic'' ''messaging'' ''c1'' ''A1'')
             (fst (exec (take 3 second_start_arrives_late) (initial_server, [])))) =
       Responded (Json200 ''AI Agent started'')
   \<and> issued (snd (resume (QueryResult (Some luna) None)
             (Start_getAIAgentInfo ''anthropic'' ''messaging'' ''c1'' ''A1'')
             (fst (exec (take 3 second_start_arrives_late) (initial_server, []))))) =
       issued (fst (exec (take 3 second_start_arrives_late) (initial_server, [])))
   \<and> stages ''A1'' (snd (exec two_starts_at_guard (initial_server, []))) = Some (BeforeGuard, BeforeGuard)
   \<and> list_all (admissible ''A1'') both_starts_succeed
   \<and> snd (exec both_starts_succeed (exec two_starts_at_guard (initial_server, []))) =
       [Responded (Json200 ''AI Agent started''), Responded (Json200 ''AI Agent started'')]
   \<and> factory_invocations ''A1'' (fst (exec both_starts_succeed (exec two_starts_at_guard (initial_server, [])))) =
       factory_invocations ''A1'' (fst (exec two_starts_at_guard (initial_server, []))) + 1"
proof -
  let ?late = "fst (exec (take 3 second_start_arrives_late) (initial_server, []))"
  let ?g = "initial_server\<lparr>issued := [QueryMembers ''messaging'' ''c1'', QueryMembers ''messaging'' ''c1'',
                                 SupabaseSelect ''A1'', SupabaseSelect ''A1'']\<rparr>"
  let ?t = "Start_getAIAgentInfo ''anthropic'' ''messaging'' ''c1'' ''A1''"
  have a: "list_all (admissible ''A1'') second_start_arrives_late"
    "list_all (admissible ''A1'') both_starts_succeed"
    by (simp_all add: second_start_arrives_late_def both_starts_succeed_def example_defs
        find_agent_id_def)
  have b: "\<not> map_has (aiAgentCache initial_server) ''A1''" "''A1'' \<notin> pendingAiAgents initial_server"
    "factory_invocations ''A1'' initial_server = 0"
    "\<not> map_has (aiAgentCache ?g) ''A1''" "''A1'' \<notin> pendingAiAgents ?g"
    by (simp_all add: initial_server_def map_has_def factory_invocations_def)
  have p: "''A1'' \<in> pendingAiAgents ?late"
    by (simp add: second_start_arrives_late_state)
  obtain s' where x: "exec both_starts_succeed (?g, [?t, ?t]) =
      (s', [Responded (Json200 ''AI Agent started''), Responded (Json200 ''AI Agent started'')])"
    by (simp add: both_starts_succeed_def handler_defs example_defs)
  show ?thesis
    using single_flight_of_two_starts
        [where s = initial_server and a = "''A1''" and evs = second_start_arrives_late and ts = "[]"
           and s' = "fst (exec second_start_arrives_late (initial_server, []))"
           and ?r1.0 = "Json200 ''AI Agent started''" and ?r2.0 = "Json200 ''AI Agent started''"]
      single_flight_of_two_starts
        [where s = ?late and a = "''A1''" and d = "Some luna" and e = None
           and pf = "''anthropic''" and ct = "''messaging''" and cid = "''c1''"]
      single_flight_of_two_starts
        [where s = ?g and a = "''A1''" and evs = both_starts_succeed and ts = "[?t, ?t]" and s' = s'
           and ?r1.0 = "Json200 ''AI Agent started''" and ?r2.0 = "Json200 ''AI Agent started''"]
      a b p x
    by (simp add: two_starts_at_guard_state second_start_arrives_late_state list_all_iff
        del: resume.simps)
qed

end
